theory Spec2Isabelle
  imports Complex_Main "HOL-Library.Word"
begin

unbundle bit_operations_syntax

section \<open>JavaScript strings and numbers\<close>

text \<open>
  A JavaScript string is a sequence of UTF-16 code units; \<open>charCodeAt\<close> reads one code
  unit as a number between 0 and 65535 (\<open>uint\<close> below). String literals of the source
  are ASCII and are embedded with \<open>js\<close>.
\<close>

type_synonym jsstring = "16 word list"

definition js :: "string \<Rightarrow> jsstring" where
  "js s = map of_char s"

definition nl :: jsstring where
  "nl = [0x0A]"

text \<open>
  \<open>String.prototype.trim\<close> removes white space and line terminators at both ends:
  TAB, LF, VT, FF, CR, SP, NBSP, U+1680, U+2000 to U+200A, U+2028, U+2029, U+202F, U+205F,
  U+3000 and the byte order mark U+FEFF.
\<close>

definition isWhiteSpace :: "16 word \<Rightarrow> bool" where
  "isWhiteSpace c =
     (c = 0x09 \<or> c = 0x0A \<or> c = 0x0B \<or> c = 0x0C \<or> c = 0x0D \<or> c = 0x20 \<or> c = 0xA0
      \<or> c = 0x1680 \<or> (0x2000 \<le> c \<and> c \<le> 0x200A) \<or> c = 0x2028 \<or> c = 0x2029
      \<or> c = 0x202F \<or> c = 0x205F \<or> c = 0x3000 \<or> c = 0xFEFF)"

definition trim :: "jsstring \<Rightarrow> jsstring" where
  "trim s = rev (dropWhile isWhiteSpace (rev (dropWhile isWhiteSpace s)))"

text \<open>\<open>Array.prototype.join\<close> on an array of strings.\<close>

fun join :: "jsstring \<Rightarrow> jsstring list \<Rightarrow> jsstring" where
  "join sep [] = []"
| "join sep [x] = x"
| "join sep (x # y # ys) = x @ sep @ join sep (y # ys)"

text \<open>\<open>String.prototype.split\<close> with a one-character separator: \<open>"".split(s)\<close> is \<open>[""]\<close>.\<close>

fun split :: "16 word \<Rightarrow> jsstring \<Rightarrow> jsstring list" where
  "split sep [] = [[]]"
| "split sep (c # cs) =
     (if c = sep then [] # split sep cs
      else (case split sep cs of
              w # ws \<Rightarrow> (c # w) # ws
            | [] \<Rightarrow> [[c]]))"

text \<open>\<open>String.prototype.includes\<close>: the search string occurs at some position.\<close>

fun js_includes :: "jsstring \<Rightarrow> jsstring \<Rightarrow> bool" where
  "js_includes [] search = (search = [])"
| "js_includes (c # cs) search =
     (take (length search) (c # cs) = search \<or> js_includes cs search)"

text \<open>
  Numbers. The hash below only holds integers of magnitude below \<open>2^37\<close>, which IEEE
  doubles represent exactly, so a JavaScript number is an \<open>int\<close> here. The bitwise
  operators convert their operands with ToInt32, the wrap-around to the signed 32-bit
  range, written out in \<open>to_int32\<close>.
\<close>

definition to_int32 :: "int \<Rightarrow> int" where
  "to_int32 x = (x + 2 ^ 31) mod 2 ^ 32 - 2 ^ 31"

definition js_shl :: "int \<Rightarrow> nat \<Rightarrow> int" where
  "js_shl x n = to_int32 (to_int32 x * 2 ^ n)"

definition js_and :: "int \<Rightarrow> int \<Rightarrow> int" where
  "js_and a b = to_int32 a AND to_int32 b"

text \<open>\<open>Number.prototype.toString\<close> on an integer: decimal digits, \<open>-\<close> in front if negative.\<close>

fun digits :: "nat \<Rightarrow> jsstring" where
  "digits n = (if n < 10 then [of_nat (48 + n)]
               else digits (n div 10) @ [of_nat (48 + n mod 10)])"

declare digits.simps [simp del]

definition toString :: "int \<Rightarrow> jsstring" where
  "toString i = (if i < 0 then 0x2D # digits (nat (- i)) else digits (nat i))"

section \<open>The cache key\<close>

text \<open>
  The loop of \<open>generateCacheKey\<close> over the code units of \<open>combined\<close>, with the running
  value of \<open>hash\<close> as accumulator:
  \<^verbatim>\<open>hash = ((hash << 5) - hash) + char; hash = hash & hash;\<close>
\<close>

fun hash_loop :: "int \<Rightarrow> jsstring \<Rightarrow> int" where
  "hash_loop hash [] = hash"
| "hash_loop hash (c # cs) =
     (let ch = uint c;
          hash1 = (js_shl hash 5 - hash) + ch
      in hash_loop (js_and hash1 hash1) cs)"

definition generateCacheKey :: "jsstring \<Rightarrow> jsstring list \<Rightarrow> jsstring" where
  "generateCacheKey documentText questions =
     (let combined = documentText @ join (js ''||'') questions
      in toString (hash_loop 0 combined))"

section \<open>The cache\<close>

text \<open>
  Values produced by \<open>JSON.parse\<close>. The content of a number is never inspected by
  the code. An object is the list of its own properties, each key once.
\<close>

datatype json =
    JNull
  | JBool bool
  | JNum real
  | JStr jsstring
  | JArr "json list"
  | JObj "(jsstring \<times> json) list"

text \<open>
  The two module-level maps \<open>responseCache\<close> and \<open>cacheTimestamps\<close>. The field
  \<open>providerCalls\<close> is not in the source: it counts the invocations of
  \<open>ai.models.generateContent\<close>, so that claims about outbound calls can be stated.
\<close>

record cache_state =
  responseCache :: "jsstring \<rightharpoonup> json list"
  cacheTimestamps :: "jsstring \<rightharpoonup> int"
  providerCalls :: nat

definition initial_state :: cache_state where
  "initial_state = \<lparr>responseCache = Map.empty, cacheTimestamps = Map.empty, providerCalls = 0\<rparr>"

definition CACHE_EXPIRY :: int where
  "CACHE_EXPIRY = 5 * 60 * 1000"

text \<open>
  \<open>clearExpiredCache\<close> visits every entry of \<open>cacheTimestamps\<close> and deletes the key from
  both maps when \<open>now - timestamp > CACHE_EXPIRY\<close>. The body acts on one key only, so the
  loop is given key by key; \<open>now\<close> is the value of \<open>Date.now()\<close>.
\<close>

definition clearExpiredCache :: "int \<Rightarrow> cache_state \<Rightarrow> cache_state" where
  "clearExpiredCache now st =
     st\<lparr>responseCache :=
          (\<lambda>key. case cacheTimestamps st key of
                    None \<Rightarrow> responseCache st key
                  | Some timestamp \<Rightarrow>
                      if now - timestamp > CACHE_EXPIRY then None else responseCache st key),
        cacheTimestamps :=
          (\<lambda>key. case cacheTimestamps st key of
                    None \<Rightarrow> None
                  | Some timestamp \<Rightarrow>
                      if now - timestamp > CACHE_EXPIRY then None else Some timestamp)\<rparr>"

section \<open>The provider and the response\<close>

text \<open>
  What \<open>await ai.models.generateContent(...)\<close> can do: reject with a thrown value, which
  is an \<open>Error\<close> carrying a message or some other value, or resolve to a response whose
  \<open>text\<close> is a string or \<open>undefined\<close>. The client is a function of the prompt; model
  name and generation configuration are constants of the source.
\<close>

datatype thrown = Error jsstring | NonError

datatype provider_outcome = Rejected thrown | Resolved "jsstring option"

type_synonym GoogleGenAI = "jsstring \<Rightarrow> provider_outcome"

text \<open>\<open>JSON.parse\<close> is a parameter: \<open>None\<close> where it throws a \<open>SyntaxError\<close>.\<close>

type_synonym json_parser = "jsstring \<Rightarrow> json option"

text \<open>Truthiness of a parsed value, as \<open>parsedResponse && ...\<close> tests it.\<close>

fun truthy :: "json \<Rightarrow> bool" where
  "truthy JNull = False"
| "truthy (JBool b) = b"
| "truthy (JNum n) = (n \<noteq> 0)"
| "truthy (JStr s) = (s \<noteq> [])"
| "truthy (JArr xs) = True"
| "truthy (JObj kvs) = True"

text \<open>
  \<open>parsedResponse.answers\<close>: the property of an object, \<open>undefined\<close> (\<open>None\<close>) when
  the object has no such key and on arrays, strings, numbers and booleans.
\<close>

fun answers_of :: "json \<Rightarrow> json option" where
  "answers_of (JObj kvs) = map_of kvs (js ''answers'')"
| "answers_of v = None"

fun isArray :: "json option \<Rightarrow> bool" where
  "isArray (Some (JArr xs)) = True"
| "isArray v = False"

fun elements :: "json option \<Rightarrow> json list" where
  "elements (Some (JArr xs)) = xs"
| "elements v = []"

text \<open>
  The outcome of \<open>runQueryRetrieval\<close>: it throws \<open>new Error(message)\<close>, returns
  \<open>null\<close>, or returns the answers array.
\<close>

datatype result = Throws jsstring | ReturnsNull | Returns "json list"

text \<open>The prompt sent to the model.\<close>

definition formattedQuestions :: "jsstring list \<Rightarrow> jsstring" where
  "formattedQuestions questions =
     join nl (map (\<lambda>(i, q). toString (int i + 1) @ js ''. '' @ q) (enumerate 0 questions))"

definition prompt :: "jsstring \<Rightarrow> jsstring list \<Rightarrow> jsstring" where
  "prompt documentText questions =
     nl @ js ''    You are an expert legal and policy analysis AI. Your task is to act as an intelligent query-retrieval system.''
   @ nl @ js ''    Carefully and thoroughly read the following document text provided below.''
   @ nl @ js ''    Based *only* on the information contained within this document, answer each of the user'' @ [0x27] @ js ''s questions.''
   @ nl @ js ''    Ensure your answers are accurate, concise, and directly reference the information available in the document.''
   @ nl @ js ''    Do not use any external knowledge. If an answer cannot be found in the document, state that clearly.''
   @ nl @ js ''    Return your response as a JSON object that matches the required schema. The number of answers in the ''
        @ [0x27] @ js ''answers'' @ [0x27] @ js '' array must exactly match the number of questions asked.''
   @ nl
   @ nl @ js ''    --- DOCUMENT TEXT START ---''
   @ nl @ js ''    '' @ documentText
   @ nl @ js ''    --- DOCUMENT TEXT END ---''
   @ nl
   @ nl @ js ''    --- QUESTIONS START ---''
   @ nl @ js ''    '' @ formattedQuestions questions
   @ nl @ js ''    --- QUESTIONS END ---''
   @ nl @ js ''  ''"

section \<open>runQueryRetrieval\<close>

text \<open>
  The \<open>catch\<close> block: the message of the error that is thrown to the caller, chosen by
  substring tests on the message of the caught error, in the order of the source.
\<close>

definition catch_block :: "thrown \<Rightarrow> jsstring" where
  "catch_block err =
     (case err of
        Error message \<Rightarrow>
          if js_includes message (js ''quota'') then
            js ''API quota exceeded. Please try again later.''
          else if js_includes message (js ''unauthorized'') then
            js ''Invalid API key. Please check your API configuration.''
          else if js_includes message (js ''rate limit'') then
            js ''Rate limit exceeded. Please wait a moment before trying again.''
          else js ''Gemini API Error: '' @ message
      | NonError \<Rightarrow>
          js ''An unknown error occurred while communicating with the Gemini API.'')"

text \<open>
  The \<open>try\<close> block, entered after a cache miss. \<open>Inl\<close> is a value thrown inside the
  block (by the provider, or the error raised when \<open>JSON.parse\<close> fails); \<open>Inr\<close> is a
  \<open>return\<close>. \<open>now\<close> is \<open>Date.now()\<close> at the time the entry is stored.
\<close>

definition try_block ::
  "GoogleGenAI \<Rightarrow> json_parser \<Rightarrow> int \<Rightarrow> jsstring \<Rightarrow> jsstring \<Rightarrow> cache_state
     \<Rightarrow> (thrown + result) \<times> cache_state" where
  "try_block generateContent JSON_parse now cacheKey prompt_text st =
     (let st1 = st\<lparr>providerCalls := providerCalls st + 1\<rparr> in
      case generateContent prompt_text of
        Rejected err \<Rightarrow> (Inl err, st1)
      | Resolved text \<Rightarrow>
          (case map_option trim text of
             None \<Rightarrow> (Inr ReturnsNull, st1)
           | Some responseText \<Rightarrow>
               if responseText = [] then (Inr ReturnsNull, st1)
               else
                 (case JSON_parse responseText of
                    None \<Rightarrow> (Inl (Error (js ''Invalid JSON response from Gemini API.'')), st1)
                  | Some parsedResponse \<Rightarrow>
                      if truthy parsedResponse \<and> isArray (answers_of parsedResponse) then
                        (let answers = elements (answers_of parsedResponse) in
                         (Inr (Returns answers),
                          st1\<lparr>responseCache := (responseCache st1)(cacheKey \<mapsto> answers),
                              cacheTimestamps := (cacheTimestamps st1)(cacheKey \<mapsto> now)\<rparr>))
                      else (Inr ReturnsNull, st1))))"

text \<open>
  \<open>ai\<close> is \<open>None\<close> when \<open>process.env.API_KEY\<close> is not set. \<open>now1\<close> is the clock read
  by \<open>clearExpiredCache\<close>, \<open>now2\<close> the clock read when the answers are stored.
\<close>

definition runQueryRetrieval ::
  "GoogleGenAI option \<Rightarrow> json_parser \<Rightarrow> int \<Rightarrow> int \<Rightarrow> jsstring \<Rightarrow> jsstring list
     \<Rightarrow> cache_state \<Rightarrow> result \<times> cache_state" where
  "runQueryRetrieval ai JSON_parse now1 now2 documentText questions st =
     (case ai of
        None \<Rightarrow> (Throws (js ''Gemini AI client not initialized.''), st)
      | Some generateContent \<Rightarrow>
          if trim documentText = [] then
            (Throws (js ''Document text cannot be empty.''), st)
          else if length questions = 0 then
            (Throws (js ''At least one question is required.''), st)
          else
            (let st1 = clearExpiredCache now1 st;
                 cacheKey = generateCacheKey documentText questions
             in case responseCache st1 cacheKey of
                  Some cachedResult \<Rightarrow> (Returns cachedResult, st1)
                | None \<Rightarrow>
                    (case try_block generateContent JSON_parse now2 cacheKey
                            (prompt documentText questions) st1 of
                       (Inr r, st2) \<Rightarrow> (r, st2)
                     | (Inl err, st2) \<Rightarrow> (Throws (catch_block err), st2))))"

section \<open>The caller: handleAnalyze\<close>

record QueryResult =
  question :: jsstring
  answer :: json

text \<open>The state of the \<open>App\<close> component that \<open>handleAnalyze\<close> reads and sets.\<close>

record app_state =
  documentText :: jsstring
  questions :: jsstring
  results :: "QueryResult list option"
  isLoading :: bool
  error :: "jsstring option"
  isApiKeyMissing :: bool

definition processedQuestions :: "app_state \<Rightarrow> jsstring list" where
  "processedQuestions app = filter (\<lambda>q. trim q \<noteq> []) (split 0x0A (questions app))"

definition isFormValid :: "app_state \<Rightarrow> bool" where
  "isFormValid app =
     (\<not> isApiKeyMissing app \<and> trim (documentText app) \<noteq> []
      \<and> length (processedQuestions app) > 0)"

text \<open>\<open>answers[index] || "No answer found."\<close>: an index out of range reads \<open>undefined\<close>.\<close>

definition answer_or_sentinel :: "json list \<Rightarrow> nat \<Rightarrow> json" where
  "answer_or_sentinel answers index =
     (if index < length answers \<and> truthy (answers ! index) then answers ! index
      else JStr (js ''No answer found.''))"

definition handleAnalyze ::
  "GoogleGenAI option \<Rightarrow> json_parser \<Rightarrow> int \<Rightarrow> int \<Rightarrow> app_state \<Rightarrow> cache_state
     \<Rightarrow> app_state \<times> cache_state" where
  "handleAnalyze ai JSON_parse now1 now2 app st =
     (if \<not> isFormValid app then
        (app\<lparr>error := Some (js ''Please provide the document text, at least one question, and ensure the API key is configured.'')\<rparr>, st)
      else
        (let app1 = app\<lparr>isLoading := True, error := None, results := None\<rparr> in
         case runQueryRetrieval ai JSON_parse now1 now2 (documentText app) (processedQuestions app) st of
           (Returns answers, st') \<Rightarrow>
             (app1\<lparr>results :=
                     Some (map (\<lambda>(index, q). \<lparr>question = q, answer = answer_or_sentinel answers index\<rparr>)
                             (enumerate 0 (processedQuestions app))),
                   isLoading := False\<rparr>, st')
         | (ReturnsNull, st') \<Rightarrow>
             (app1\<lparr>error := Some (js ''The model did not return a valid response. The document might be too complex or the query too ambiguous. Please try again with a clearer document or questions.''),
                   isLoading := False\<rparr>, st')
         | (Throws errorMessage, st') \<Rightarrow>
             (app1\<lparr>error := Some (js ''Failed to retrieve answers. '' @ errorMessage),
                   isLoading := False\<rparr>, st')))"

section \<open>Reachable cache states\<close>

text \<open>
  The module state starts with both maps empty and is only ever changed by calls of
  \<open>runQueryRetrieval\<close>, with any client, clock values and arguments.
\<close>

inductive reachable :: "cache_state \<Rightarrow> bool" where
  reachable_init: "reachable initial_state"
| reachable_step:
    "reachable st \<Longrightarrow>
     reachable (snd (runQueryRetrieval ai JSON_parse now1 now2 doc qs st))"

text \<open>Every cached answer list has a timestamp.\<close>

definition cache_consistent :: "cache_state \<Rightarrow> bool" where
  "cache_consistent st = (\<forall>key. responseCache st key \<noteq> None \<longrightarrow> cacheTimestamps st key \<noteq> None)"

section \<open>Example responses\<close>

text \<open>
  Response texts used in the examples below, and a parser that agrees with \<open>JSON.parse\<close>
  on them: \<^verbatim>\<open>{"answers":["a"]}\<close>, \<^verbatim>\<open>{"answers":[]}\<close>, \<^verbatim>\<open>{"answers":[1]}\<close> and \<^verbatim>\<open>{}\<close>
  are JSON; \<^verbatim>\<open>oops\<close> is not.
\<close>

definition dq :: jsstring where
  "dq = [0x22]"

definition text_one_answer :: jsstring where
  "text_one_answer = js ''{'' @ dq @ js ''answers'' @ dq @ js '':['' @ dq @ js ''a'' @ dq @ js '']}''"

definition text_no_answer :: jsstring where
  "text_no_answer = js ''{'' @ dq @ js ''answers'' @ dq @ js '':[]}''"

definition text_number_answer :: jsstring where
  "text_number_answer = js ''{'' @ dq @ js ''answers'' @ dq @ js '':[1]}''"

definition example_parse :: json_parser where
  "example_parse t =
     (if t = text_one_answer then Some (JObj [(js ''answers'', JArr [JStr (js ''a'')])])
      else if t = text_no_answer then Some (JObj [(js ''answers'', JArr [])])
      else if t = text_number_answer then Some (JObj [(js ''answers'', JArr [JNum 1])])
      else if t = js ''{}'' then Some (JObj [])
      else None)"

section \<open>Facts about strings and numbers\<close>

lemma js_and_self: "js_and x x = to_int32 x"
  by (simp add: js_and_def)

lemma to_int32_eq: "to_int32 x = signed_take_bit 31 x"
  by (simp add: to_int32_def signed_take_bit_eq_take_bit_shift take_bit_eq_mod)

lemma word_of_int_to_int32: "(word_of_int (to_int32 x) :: 32 word) = word_of_int x"
  by (simp add: to_int32_eq word_of_int_eq_iff take_bit_signed_take_bit)

text \<open>One round of the loop is \<open>hash * 31 + char\<close> modulo \<open>2^32\<close>.\<close>

lemma word_hash_step:
  "(word_of_int (js_and (js_shl h 5 - h + uint c) (js_shl h 5 - h + uint c)) :: 32 word)
     = 31 * word_of_int h + ucast c"
proof -
  have a: "(word_of_int (to_int32 h * 32) :: 32 word) = 32 * word_of_int h"
    using word_of_int_to_int32[of h] by (simp add: mult.commute)
  have "(word_of_int (js_shl h 5 - h + uint c) :: 32 word)
      = word_of_int (js_shl h 5) - word_of_int h + word_of_int (uint c)"
    by simp
  also have "\<dots> = 32 * word_of_int h - word_of_int h + ucast c"
    using a by (simp add: js_shl_def word_of_int_to_int32 del: of_int_mult)
  finally show ?thesis
    by (simp add: js_and_self word_of_int_to_int32 del: of_int_add of_int_diff)
qed

lemma mult31_cancel:
  assumes h: "(31::32 word) * x = 31 * y"
  shows "x = y"
proof -
  have one: "(3186588639 * 31 :: 32 word) = 1" by simp
  have "x = (3186588639 * 31) * x" by (simp only: one mult_1)
  also have "\<dots> = 3186588639 * (31 * x)" by (simp only: mult.assoc)
  also have "\<dots> = 3186588639 * (31 * y)" by (simp only: h)
  also have "\<dots> = (3186588639 * 31) * y" by (simp only: mult.assoc)
  also have "\<dots> = y" by (simp only: one mult_1)
  finally show ?thesis .
qed

lemma ucast_inj16:
  assumes h: "(ucast (c::16 word) :: 32 word) = ucast c'"
  shows "c = c'"
proof -
  have "uint (ucast c :: 32 word) = uint c" "uint (ucast c' :: 32 word) = uint c'"
    by (simp_all add: uint_up_ucast is_up)
  with h show ?thesis by (metis word_uint_eq_iff)
qed

lemma hash_loop_append: "hash_loop h (xs @ ys) = hash_loop (hash_loop h xs) ys"
  by (induction xs arbitrary: h) (simp_all add: Let_def)

lemma word_hash_loop_inj:
  "(word_of_int (hash_loop h1 cs) :: 32 word) = word_of_int (hash_loop h2 cs)
     \<Longrightarrow> (word_of_int h1 :: 32 word) = word_of_int h2"
proof (induction cs arbitrary: h1 h2)
  case Nil
  then show ?case by simp
next
  case (Cons c cs)
  let ?s = "\<lambda>h. js_and (js_shl h 5 - h + uint c) (js_shl h 5 - h + uint c)"
  from Cons.prems have "(word_of_int (hash_loop (?s h1) cs) :: 32 word)
      = word_of_int (hash_loop (?s h2) cs)"
    by (simp add: Let_def)
  then have "(word_of_int (?s h1) :: 32 word) = word_of_int (?s h2)"
    by (rule Cons.IH)
  then have "(31 :: 32 word) * word_of_int h1 + ucast c = 31 * word_of_int h2 + ucast c"
    by (simp only: word_hash_step)
  then have "(31 :: 32 word) * word_of_int h1 = 31 * word_of_int h2"
    by simp
  then show ?case by (rule mult31_cancel)
qed

lemma hash_loop_substitution:
  assumes "c \<noteq> c'"
  shows "hash_loop h (pre @ c # post) \<noteq> hash_loop h (pre @ c' # post)"
proof
  assume eq: "hash_loop h (pre @ c # post) = hash_loop h (pre @ c' # post)"
  let ?g = "hash_loop h pre"
  let ?s = "\<lambda>d. js_and (js_shl ?g 5 - ?g + uint d) (js_shl ?g 5 - ?g + uint d)"
  from eq have "hash_loop (?s c) post = hash_loop (?s c') post"
    by (simp add: hash_loop_append Let_def)
  then have "(word_of_int (hash_loop (?s c) post) :: 32 word)
      = word_of_int (hash_loop (?s c') post)"
    by simp
  then have "(word_of_int (?s c) :: 32 word) = word_of_int (?s c')"
    by (rule word_hash_loop_inj)
  then have "(31 :: 32 word) * word_of_int ?g + ucast c = 31 * word_of_int ?g + ucast c'"
    by (simp only: word_hash_step)
  then have "(ucast c :: 32 word) = ucast c'" by simp
  then have "c = c'" by (rule ucast_inj16)
  with assms show False by simp
qed

text \<open>The decimal representation determines the number.\<close>

lemma digit_inj:
  assumes "a < 10" "b < 10" "(of_nat (48 + a) :: 16 word) = of_nat (48 + b)"
  shows "a = b"
proof -
  have "take_bit LENGTH(16) (48 + a) = take_bit LENGTH(16) (48 + b)"
    using assms(3) by (simp only: word_of_nat_eq_iff)
  moreover have "48 + a < 2 ^ LENGTH(16)" "48 + b < 2 ^ LENGTH(16)" using assms by simp_all
  ultimately have "48 + a = 48 + b" by (simp only: take_bit_nat_eq_self)
  then show ?thesis by simp
qed

lemma digit_not_minus:
  assumes "a < 10"
  shows "(of_nat (48 + a) :: 16 word) \<noteq> 0x2D"
proof
  assume e: "(of_nat (48 + a) :: 16 word) = 0x2D"
  then have "unat (of_nat (48 + a) :: 16 word) = unat (0x2D :: 16 word)" by (rule arg_cong)
  moreover have "(48 + a) mod 2 ^ LENGTH(16) = 48 + a"
    using assms by (intro mod_less) simp
  ultimately have "48 + a = unat (0x2D :: 16 word)" by (simp only: unat_of_nat)
  then show False by simp
qed

lemma digits_nonempty: "digits n \<noteq> []"
  by (subst digits.simps) simp

lemma digits_no_minus: "c \<in> set (digits n) \<Longrightarrow> c \<noteq> 0x2D"
proof (induction n rule: digits.induct)
  case (1 n)
  show ?case
  proof (cases "n < 10")
    case True
    then have "digits n = [of_nat (48 + n)]" by (simp add: digits.simps[of n])
    with "1.prems" have "c = of_nat (48 + n)" by simp
    then show ?thesis using digit_not_minus[OF True] by simp
  next
    case False
    then have "digits n = digits (n div 10) @ [of_nat (48 + n mod 10)]"
      by (simp add: digits.simps[of n])
    with "1.prems" have "c \<in> set (digits (n div 10)) \<or> c = of_nat (48 + n mod 10)"
      by auto
    then show ?thesis
    proof
      assume "c \<in> set (digits (n div 10))"
      with False show ?thesis by (rule "1.IH")
    next
      have "n mod 10 < 10" by simp
      then have "(of_nat (48 + n mod 10) :: 16 word) \<noteq> 0x2D" by (rule digit_not_minus)
      moreover assume "c = of_nat (48 + n mod 10)"
      ultimately show ?thesis by simp
    qed
  qed
qed

lemma digits_inj: "digits m = digits n \<Longrightarrow> m = n"
proof (induction m arbitrary: n rule: digits.induct)
  case (1 m)
  show ?case
  proof (cases "m < 10")
    case m: True
    show ?thesis
    proof (cases "n < 10")
      case True
      with m "1.prems" have "(of_nat (48 + m) :: 16 word) = of_nat (48 + n)"
        by (simp add: digits.simps[of m] digits.simps[of n])
      with m True show ?thesis by (rule digit_inj)
    next
      case False
      with m "1.prems" have "digits (n div 10) = []"
        by (simp add: digits.simps[of m] digits.simps[of n])
      then show ?thesis using digits_nonempty by blast
    qed
  next
    case m: False
    show ?thesis
    proof (cases "n < 10")
      case True
      with m "1.prems" have "digits (m div 10) = []"
        by (simp add: digits.simps[of m] digits.simps[of n])
      then show ?thesis using digits_nonempty by blast
    next
      case False
      with m "1.prems" have e: "digits (m div 10) = digits (n div 10)"
        and d: "(of_nat (48 + m mod 10) :: 16 word) = of_nat (48 + n mod 10)"
        by (simp_all add: digits.simps[of m] digits.simps[of n])
      from m e have "m div 10 = n div 10" by (rule "1.IH")
      moreover have "m mod 10 = n mod 10"
        using d by (intro digit_inj) simp_all
      ultimately show ?thesis by (metis div_mult_mod_eq)
    qed
  qed
qed

lemma toString_inj: "toString i = toString j \<Longrightarrow> i = j"
proof -
  assume e: "toString i = toString j"
  have hd_nonneg: "\<And>n. hd (digits n) \<noteq> 0x2D"
    using digits_no_minus digits_nonempty hd_in_set by blast
  have diff: "\<And>m n. 0x2D # digits m \<noteq> digits n"
    using hd_nonneg by (metis list.sel(1))
  show ?thesis
  proof (cases "i < 0")
    case i: True
    show ?thesis
    proof (cases "j < 0")
      case True
      with i e have "digits (nat (- i)) = digits (nat (- j))" by (simp add: toString_def)
      then have "nat (- i) = nat (- j)" by (rule digits_inj)
      with i True show ?thesis by simp
    next
      case False
      with i e diff show ?thesis by (simp add: toString_def)
    qed
  next
    case i: False
    show ?thesis
    proof (cases "j < 0")
      case True
      with i e diff[of "nat (- j)" "nat i"] show ?thesis by (simp add: toString_def)
    next
      case False
      with i e have "digits (nat i) = digits (nat j)" by (simp add: toString_def)
      then have "nat i = nat j" by (rule digits_inj)
      with i False show ?thesis by simp
    qed
  qed
qed

text \<open>Evaluation of the loop on a concrete string, one character at a time.\<close>

lemma to_int32_sint: "to_int32 x = sint (word_of_int x :: 32 word)"
  by (simp add: to_int32_eq sint_sbintrunc')

lemma to_int32_cong:
  "(word_of_int a :: 32 word) = word_of_int b \<Longrightarrow> to_int32 a = to_int32 b"
  by (simp only: to_int32_sint)

lemma hash_loop_Cons_eval:
  "hash_loop h (c # cs) = hash_loop (to_int32 (31 * h + uint c)) cs"
proof -
  have "(word_of_int (js_and (js_shl h 5 - h + uint c) (js_shl h 5 - h + uint c)) :: 32 word)
      = word_of_int (31 * h + uint c)"
    by (simp only: word_hash_step) simp
  then have "to_int32 (js_and (js_shl h 5 - h + uint c) (js_shl h 5 - h + uint c))
      = to_int32 (31 * h + uint c)"
    by (rule to_int32_cong)
  moreover have "to_int32 (js_and (js_shl h 5 - h + uint c) (js_shl h 5 - h + uint c))
      = js_and (js_shl h 5 - h + uint c) (js_shl h 5 - h + uint c)"
    by (simp add: js_and_self to_int32_eq)
  ultimately show ?thesis by (simp add: Let_def)
qed

text \<open>
  Two keys computed by hand: the hash of \<open>abc\<close> is \<open>96354\<close>, and the hash of
  \<open>polygenelubricants\<close> wraps around to the least 32-bit integer.
\<close>

lemma generateCacheKey_abc: "generateCacheKey (js ''abc'') [] = js ''96354''"
  by (simp add: generateCacheKey_def toString_def js_def hash_loop_Cons_eval to_int32_def
      digits.simps Let_def del: hash_loop.simps(2))

lemma generateCacheKey_negative:
  "generateCacheKey (js ''polygenelubricants'') [] = js ''-2147483648''"
  by (simp add: generateCacheKey_def toString_def js_def hash_loop_Cons_eval to_int32_def
      digits.simps Let_def del: hash_loop.simps(2))

section \<open>Properties of the cache key\<close>

lemma join_Cons: "ys \<noteq> [] \<Longrightarrow> join sep (q # ys) = q @ sep @ join sep ys"
  by (cases ys) simp_all

text \<open>A question occupies one contiguous stretch of the joined string.\<close>

lemma join_insert: "\<exists>A B. \<forall>x. join sep (qs1 @ x # qs2) = A @ x @ B"
proof (induction qs1)
  case Nil
  show ?case
  proof (cases qs2)
    case Nil
    then have "\<forall>x. join sep ([] @ x # qs2) = [] @ x @ []" by simp
    then show ?thesis by blast
  next
    case (Cons y ys)
    then have "\<forall>x. join sep ([] @ x # qs2) = [] @ x @ (sep @ join sep (y # ys))" by simp
    then show ?thesis by blast
  qed
next
  case (Cons q qs1)
  then obtain A B where ab: "\<forall>x. join sep (qs1 @ x # qs2) = A @ x @ B" by blast
  have "\<forall>x. join sep ((q # qs1) @ x # qs2) = (q @ sep @ A) @ x @ B"
  proof
    fix x
    have "join sep ((q # qs1) @ x # qs2) = q @ sep @ join sep (qs1 @ x # qs2)"
      by (simp add: join_Cons)
    with ab show "join sep ((q # qs1) @ x # qs2) = (q @ sep @ A) @ x @ B" by simp
  qed
  then show ?case by blast
qed

lemma key_substitution:
  assumes "c \<noteq> c'"
  shows "toString (hash_loop 0 (pre @ c # post)) \<noteq> toString (hash_loop 0 (pre @ c' # post))"
proof -
  have "hash_loop 0 (pre @ c # post) \<noteq> hash_loop 0 (pre @ c' # post)"
    using assms by (rule hash_loop_substitution)
  then show ?thesis
    by (rule contrapos_nn) (rule toString_inj)
qed

text \<open>
  C1 (as amended). The cache key is a function of the document text and the ordered
  question list: identical inputs give the identical key, and so do any two inputs with
  the same concatenation of the document text and the questions joined by \<open>||\<close>.
  Replacing one UTF-16 code unit (the unit that \<open>charCodeAt\<close> reads) of the document
  text, or of one of the questions, by a different code unit gives a different key. (The
  key is a 32-bit hash: inputs that differ in other ways, such as the order of the
  questions, or a character outside the Basic Multilingual Plane, which is two code
  units, replaced by another, can share a key.)
\<close>

theorem generateCacheKey_deterministic_substitution:
  "(doc = doc' \<and> qs = qs' \<longrightarrow> generateCacheKey doc qs = generateCacheKey doc' qs')
   \<and> (doc @ join (js ''||'') qs = doc' @ join (js ''||'') qs' \<longrightarrow>
        generateCacheKey doc qs = generateCacheKey doc' qs')
   \<and> (c \<noteq> c' \<longrightarrow>
        generateCacheKey (pre @ c # post) qs \<noteq> generateCacheKey (pre @ c' # post) qs)
   \<and> (c \<noteq> c' \<longrightarrow>
        generateCacheKey doc (qs1 @ (pre @ c # post) # qs2)
          \<noteq> generateCacheKey doc (qs1 @ (pre @ c' # post) # qs2))"
proof (intro conjI impI)
  assume "doc = doc' \<and> qs = qs'"
  then show "generateCacheKey doc qs = generateCacheKey doc' qs'" by simp
next
  assume "doc @ join (js ''||'') qs = doc' @ join (js ''||'') qs'"
  then show "generateCacheKey doc qs = generateCacheKey doc' qs'"
    by (simp add: generateCacheKey_def)
next
  assume ne: "c \<noteq> c'"
  from ne have "toString (hash_loop 0 (pre @ c # (post @ join (js ''||'') qs)))
      \<noteq> toString (hash_loop 0 (pre @ c' # (post @ join (js ''||'') qs)))"
    by (rule key_substitution)
  then show "generateCacheKey (pre @ c # post) qs \<noteq> generateCacheKey (pre @ c' # post) qs"
    by (simp add: generateCacheKey_def)
next
  assume ne: "c \<noteq> c'"
  obtain A B where ab: "\<forall>x. join (js ''||'') (qs1 @ x # qs2) = A @ x @ B"
    using join_insert by blast
  from ne have "toString (hash_loop 0 ((doc @ A @ pre) @ c # (post @ B)))
      \<noteq> toString (hash_loop 0 ((doc @ A @ pre) @ c' # (post @ B)))"
    by (rule key_substitution)
  then show "generateCacheKey doc (qs1 @ (pre @ c # post) # qs2)
          \<noteq> generateCacheKey doc (qs1 @ (pre @ c' # post) # qs2)"
    by (simp add: generateCacheKey_def ab)
qed

theorem generateCacheKey_deterministic_substitution_witness:
  "generateCacheKey (js ''policy'') [js ''q1'']
     = generateCacheKey (js ''policy'') [js ''q1'']
   \<and> generateCacheKey (js ''policy'') [js ''q1''] \<noteq> generateCacheKey (js ''polity'') [js ''q1'']
   \<and> generateCacheKey (js ''d'') [js ''q0'', js ''policy'', js ''q2'']
       \<noteq> generateCacheKey (js ''d'') [js ''q0'', js ''polity'', js ''q2'']"
proof -
  have ne: "(0x63 :: 16 word) \<noteq> 0x74" by simp
  have a: "js ''policy'' = js ''poli'' @ 0x63 # js ''y''"
    and b: "js ''polity'' = js ''poli'' @ 0x74 # js ''y''"
    by (simp_all add: js_def)
  have l: "[js ''q0'', js ''policy'', js ''q2''] = [js ''q0''] @ (js ''poli'' @ 0x63 # js ''y'') # [js ''q2'']"
    and m: "[js ''q0'', js ''polity'', js ''q2''] = [js ''q0''] @ (js ''poli'' @ 0x74 # js ''y'') # [js ''q2'']"
    by (simp_all add: a b)
  from generateCacheKey_deterministic_substitution
         [where doc = "js ''policy''" and doc' = "js ''policy''"
            and qs = "[js ''q1'']" and qs' = "[js ''q1'']"
            and c = "0x63" and c' = "0x74" and pre = "js ''poli''" and post = "js ''y''"]
  have one: "generateCacheKey (js ''policy'') [js ''q1'']
     = generateCacheKey (js ''policy'') [js ''q1'']
   \<and> generateCacheKey (js ''policy'') [js ''q1''] \<noteq> generateCacheKey (js ''polity'') [js ''q1'']"
    using ne by (simp only: a b simp_thms)
  from generateCacheKey_deterministic_substitution
         [where doc = "js ''d''" and doc' = "js ''d''" and qs = "[]" and qs' = "[]"
            and c = "0x63" and c' = "0x74" and pre = "js ''poli''" and post = "js ''y''"
            and ?qs1.0 = "[js ''q0'']" and ?qs2.0 = "[js ''q2'']"]
  have two: "generateCacheKey (js ''d'') [js ''q0'', js ''policy'', js ''q2'']
       \<noteq> generateCacheKey (js ''d'') [js ''q0'', js ''polity'', js ''q2'']"
    using ne by (simp only: l m simp_thms)
  from one two show ?thesis by simp
qed

text \<open>
  C1 as stated fails: exchanging the two questions \<open>Aa\<close> and \<open>BB\<close> changes the ordered
  question list and leaves the key unchanged.
\<close>

theorem generateCacheKey_order_collision:
  "[js ''Aa'', js ''BB''] \<noteq> [js ''BB'', js ''Aa'']
   \<and> generateCacheKey (js ''doc'') [js ''Aa'', js ''BB'']
       = generateCacheKey (js ''doc'') [js ''BB'', js ''Aa'']"
proof
  show "[js ''Aa'', js ''BB''] \<noteq> [js ''BB'', js ''Aa'']"
    by (simp add: js_def)
  have "hash_loop 0 (js ''doc'' @ join (js ''||'') [js ''Aa'', js ''BB''])
      = hash_loop 0 (js ''doc'' @ join (js ''||'') [js ''BB'', js ''Aa''])"
    by (simp add: js_def hash_loop_Cons_eval to_int32_def del: hash_loop.simps)
  then show "generateCacheKey (js ''doc'') [js ''Aa'', js ''BB'']
       = generateCacheKey (js ''doc'') [js ''BB'', js ''Aa'']"
    by (simp only: generateCacheKey_def Let_def)
qed

text \<open>
  The substitution property is about code units, not characters: U+1F61F is the
  surrogate pair \<open>D83D DE1F\<close> and U+1FA00 the pair \<open>D83E DE00\<close>, and two document
  texts that differ in this one character have the same key, whatever follows it.
\<close>

lemma astral_character_collision:
  "generateCacheKey ([0xD83D, 0xDE1F] @ rest) qs = generateCacheKey ([0xD83E, 0xDE00] @ rest) qs"
proof -
  have "hash_loop 0 [0xD83D, 0xDE1F] = hash_loop 0 [0xD83E, 0xDE00]"
    by (simp add: hash_loop_Cons_eval to_int32_def del: hash_loop.simps(2))
  then have "hash_loop 0 ([0xD83D, 0xDE1F] @ (rest @ join (js ''||'') qs))
      = hash_loop 0 ([0xD83E, 0xDE00] @ (rest @ join (js ''||'') qs))"
    by (simp only: hash_loop_append)
  then show ?thesis
    by (simp add: generateCacheKey_def)
qed

section \<open>Properties of runQueryRetrieval\<close>

text \<open>
  C10. Without a configured client, \<open>runQueryRetrieval\<close> throws the
  client-not-initialized error on every input, whatever the document text and the
  question list are, and leaves the cache and the provider untouched.
\<close>

theorem not_configured_precedence:
  "runQueryRetrieval None JSON_parse now1 now2 doc qs st
     = (Throws (js ''Gemini AI client not initialized.''), st)"
  by (simp add: runQueryRetrieval_def)

theorem not_configured_precedence_witness:
  "runQueryRetrieval None (\<lambda>t. None) 0 0 [] [] initial_state
     = (Throws (js ''Gemini AI client not initialized.''), initial_state)"
  by (rule not_configured_precedence)

section \<open>The paths through runQueryRetrieval\<close>

lemma providerCalls_clearExpiredCache:
  "providerCalls (clearExpiredCache now st) = providerCalls st"
  by (simp add: clearExpiredCache_def)

lemma responseCache_clearExpiredCache:
  "responseCache (clearExpiredCache now st) key =
     (case cacheTimestamps st key of
        None \<Rightarrow> responseCache st key
      | Some ts \<Rightarrow> if now - ts > CACHE_EXPIRY then None else responseCache st key)"
  by (simp add: clearExpiredCache_def)

lemma cacheTimestamps_clearExpiredCache:
  "cacheTimestamps (clearExpiredCache now st) key =
     (case cacheTimestamps st key of
        None \<Rightarrow> None
      | Some ts \<Rightarrow> if now - ts > CACHE_EXPIRY then None else Some ts)"
  by (simp add: clearExpiredCache_def)

lemma clearExpiredCache_keeps_absent:
  "responseCache st key = None \<Longrightarrow> responseCache (clearExpiredCache now st) key = None"
  by (simp add: responseCache_clearExpiredCache split: option.splits)

lemma run_blank_document:
  "trim doc = [] \<Longrightarrow>
   runQueryRetrieval (Some p) JSON_parse now1 now2 doc qs st
     = (Throws (js ''Document text cannot be empty.''), st)"
  by (simp add: runQueryRetrieval_def)

lemma run_no_questions:
  "trim doc \<noteq> [] \<Longrightarrow> qs = [] \<Longrightarrow>
   runQueryRetrieval (Some p) JSON_parse now1 now2 doc qs st
     = (Throws (js ''At least one question is required.''), st)"
  by (simp add: runQueryRetrieval_def)

lemma run_hit:
  "trim doc \<noteq> [] \<Longrightarrow> qs \<noteq> [] \<Longrightarrow>
   responseCache (clearExpiredCache now1 st) (generateCacheKey doc qs) = Some a \<Longrightarrow>
   runQueryRetrieval (Some p) JSON_parse now1 now2 doc qs st
     = (Returns a, clearExpiredCache now1 st)"
  by (simp add: runQueryRetrieval_def Let_def)

lemma run_miss:
  "trim doc \<noteq> [] \<Longrightarrow> qs \<noteq> [] \<Longrightarrow>
   responseCache (clearExpiredCache now1 st) (generateCacheKey doc qs) = None \<Longrightarrow>
   runQueryRetrieval (Some p) JSON_parse now1 now2 doc qs st
     = (case try_block p JSON_parse now2 (generateCacheKey doc qs) (prompt doc qs)
               (clearExpiredCache now1 st) of
          (Inr r, st2) \<Rightarrow> (r, st2)
        | (Inl err, st2) \<Rightarrow> (Throws (catch_block err), st2))"
  by (simp add: runQueryRetrieval_def Let_def)

text \<open>The \<open>try\<close> block, outcome by outcome.\<close>

lemma try_block_rejected:
  "p pr = Rejected err \<Longrightarrow>
   try_block p JSON_parse now key pr st = (Inl err, st\<lparr>providerCalls := providerCalls st + 1\<rparr>)"
  by (simp add: try_block_def)

lemma try_block_no_text:
  "p pr = Resolved None \<Longrightarrow>
   try_block p JSON_parse now key pr st
     = (Inr ReturnsNull, st\<lparr>providerCalls := providerCalls st + 1\<rparr>)"
  by (simp add: try_block_def)

lemma try_block_blank_text:
  "p pr = Resolved (Some t) \<Longrightarrow> trim t = [] \<Longrightarrow>
   try_block p JSON_parse now key pr st
     = (Inr ReturnsNull, st\<lparr>providerCalls := providerCalls st + 1\<rparr>)"
  by (simp add: try_block_def)

lemma try_block_not_json:
  "p pr = Resolved (Some t) \<Longrightarrow> trim t \<noteq> [] \<Longrightarrow> JSON_parse (trim t) = None \<Longrightarrow>
   try_block p JSON_parse now key pr st
     = (Inl (Error (js ''Invalid JSON response from Gemini API.'')),
        st\<lparr>providerCalls := providerCalls st + 1\<rparr>)"
  by (simp add: try_block_def)

lemma try_block_wrong_shape:
  "p pr = Resolved (Some t) \<Longrightarrow> trim t \<noteq> [] \<Longrightarrow> JSON_parse (trim t) = Some v \<Longrightarrow>
   \<not> isArray (answers_of v) \<Longrightarrow>
   try_block p JSON_parse now key pr st
     = (Inr ReturnsNull, st\<lparr>providerCalls := providerCalls st + 1\<rparr>)"
  by (simp add: try_block_def)

lemma answers_array_truthy: "answers_of v = Some x \<Longrightarrow> truthy v"
  by (cases v) simp_all

lemma try_block_answers:
  "p pr = Resolved (Some t) \<Longrightarrow> trim t \<noteq> [] \<Longrightarrow> JSON_parse (trim t) = Some v \<Longrightarrow>
   answers_of v = Some (JArr answers) \<Longrightarrow>
   try_block p JSON_parse now key pr st
     = (Inr (Returns answers),
        st\<lparr>providerCalls := providerCalls st + 1,
           responseCache := (responseCache st)(key \<mapsto> answers),
           cacheTimestamps := (cacheTimestamps st)(key \<mapsto> now)\<rparr>)"
  by (simp add: try_block_def answers_array_truthy)

text \<open>Every pass through the \<open>try\<close> block is one provider call.\<close>

lemma try_block_calls:
  "providerCalls (snd (try_block p JSON_parse now key pr st)) = providerCalls st + 1"
  by (simp add: try_block_def Let_def split: provider_outcome.splits option.splits)

text \<open>The block writes the two maps only when it returns the answers.\<close>

lemma try_block_returns:
  "try_block p JSON_parse now key pr st = (Inr (Returns a), st') \<Longrightarrow>
   st' = st\<lparr>providerCalls := providerCalls st + 1,
            responseCache := (responseCache st)(key \<mapsto> a),
            cacheTimestamps := (cacheTimestamps st)(key \<mapsto> now)\<rparr>"
  by (auto simp add: try_block_def Let_def split: provider_outcome.splits option.splits if_splits)

lemma try_block_fails:
  "try_block p JSON_parse now key pr st = (x, st') \<Longrightarrow> \<forall>a. x \<noteq> Inr (Returns a) \<Longrightarrow>
   st' = st\<lparr>providerCalls := providerCalls st + 1\<rparr>"
  by (auto simp add: try_block_def Let_def split: provider_outcome.splits option.splits if_splits)

lemma run_miss_calls:
  assumes "trim doc \<noteq> []" "qs \<noteq> []"
    and "responseCache (clearExpiredCache now1 st) (generateCacheKey doc qs) = None"
  shows "providerCalls (snd (runQueryRetrieval (Some p) JSON_parse now1 now2 doc qs st))
           = providerCalls st + 1"
proof -
  let ?t = "try_block p JSON_parse now2 (generateCacheKey doc qs) (prompt doc qs)
              (clearExpiredCache now1 st)"
  have "providerCalls (snd ?t) = providerCalls st + 1"
    by (simp add: try_block_calls providerCalls_clearExpiredCache)
  moreover have "snd (runQueryRetrieval (Some p) JSON_parse now1 now2 doc qs st) = snd ?t"
    using assms by (cases ?t) (simp add: run_miss split: sum.splits)
  ultimately show ?thesis by simp
qed

text \<open>A call with valid input that does not return answers went through a failed \<open>try\<close> block.\<close>

lemma run_failure_state:
  assumes "trim doc \<noteq> []" "qs \<noteq> []"
    and run: "runQueryRetrieval (Some p) JSON_parse now1 now2 doc qs st = (r, st1)"
    and fail: "\<forall>a. r \<noteq> Returns a"
  shows "responseCache (clearExpiredCache now1 st) (generateCacheKey doc qs) = None
         \<and> st1 = (clearExpiredCache now1 st)\<lparr>providerCalls := providerCalls st + 1\<rparr>"
proof (cases "responseCache (clearExpiredCache now1 st) (generateCacheKey doc qs)")
  case (Some a)
  with assms(1,2) run have "r = Returns a" by (simp add: run_hit)
  with fail show ?thesis by simp
next
  case None
  let ?t = "try_block p JSON_parse now2 (generateCacheKey doc qs) (prompt doc qs)
              (clearExpiredCache now1 st)"
  obtain x st2 where t: "?t = (x, st2)" by (cases ?t)
  from assms(1,2) None run t have st: "st1 = st2"
    and r: "r = (case x of Inr r' \<Rightarrow> r' | Inl err \<Rightarrow> Throws (catch_block err))"
    by (auto simp add: run_miss split: sum.splits)
  from r fail have "\<forall>a. x \<noteq> Inr (Returns a)" by auto
  with t have "st2 = (clearExpiredCache now1 st)\<lparr>providerCalls :=
      providerCalls (clearExpiredCache now1 st) + 1\<rparr>"
    by (rule try_block_fails)
  with st None show ?thesis by (simp add: providerCalls_clearExpiredCache)
qed

text \<open>A call that returned answers after one provider call stored them under its key.\<close>

lemma run_success_state:
  assumes run: "runQueryRetrieval (Some p) JSON_parse now1 now2 doc qs st = (Returns a, st1)"
    and calls: "providerCalls st1 = providerCalls st + 1"
  shows "trim doc \<noteq> [] \<and> qs \<noteq> []
         \<and> st1 = (clearExpiredCache now1 st)
               \<lparr>providerCalls := providerCalls st + 1,
                responseCache := (responseCache (clearExpiredCache now1 st))(generateCacheKey doc qs \<mapsto> a),
                cacheTimestamps := (cacheTimestamps (clearExpiredCache now1 st))(generateCacheKey doc qs \<mapsto> now2)\<rparr>"
proof -
  have d: "trim doc \<noteq> []" using run by (auto simp add: run_blank_document)
  have q: "qs \<noteq> []" using run d by (auto simp add: run_no_questions)
  show ?thesis
  proof (cases "responseCache (clearExpiredCache now1 st) (generateCacheKey doc qs)")
    case (Some b)
    with d q run have "st1 = clearExpiredCache now1 st" by (simp add: run_hit)
    with calls show ?thesis by (simp add: providerCalls_clearExpiredCache)
  next
    case None
    let ?t = "try_block p JSON_parse now2 (generateCacheKey doc qs) (prompt doc qs)
                (clearExpiredCache now1 st)"
    obtain x st2 where t: "?t = (x, st2)" by (cases ?t)
    from d q None run t have "x = Inr (Returns a) \<and> st2 = st1"
      by (auto simp add: run_miss split: sum.splits)
    with t have "?t = (Inr (Returns a), st1)" by simp
    then have "st1 = (clearExpiredCache now1 st)
               \<lparr>providerCalls := providerCalls (clearExpiredCache now1 st) + 1,
                responseCache := (responseCache (clearExpiredCache now1 st))(generateCacheKey doc qs \<mapsto> a),
                cacheTimestamps := (cacheTimestamps (clearExpiredCache now1 st))(generateCacheKey doc qs \<mapsto> now2)\<rparr>"
      by (rule try_block_returns)
    with d q show ?thesis by (simp add: providerCalls_clearExpiredCache)
  qed
qed

lemma trim_d: "trim (js ''d'') \<noteq> []"
  by (simp add: trim_def js_def isWhiteSpace_def)

text \<open>
  C7. When a call with valid input does not return answers (the provider rejected, the
  response was empty, or it could not be parsed), no entry is stored under the key of
  the request, exactly one provider call was made, and a repeated call with the same
  input calls the provider again.
\<close>

theorem failure_writes_no_entry:
  assumes "trim doc \<noteq> []" "qs \<noteq> []"
    and "runQueryRetrieval (Some p) JSON_parse now1 now2 doc qs st = (r, st1)"
    and "\<forall>a. r \<noteq> Returns a"
  shows "responseCache st1 (generateCacheKey doc qs) = None
         \<and> providerCalls st1 = providerCalls st + 1
         \<and> providerCalls (snd (runQueryRetrieval (Some p') JSON_parse' now3 now4 doc qs st1))
             = providerCalls st1 + 1"
proof -
  from assms have none: "responseCache (clearExpiredCache now1 st) (generateCacheKey doc qs) = None"
    and st1: "st1 = (clearExpiredCache now1 st)\<lparr>providerCalls := providerCalls st + 1\<rparr>"
    using run_failure_state by blast+
  from none st1 have a: "responseCache st1 (generateCacheKey doc qs) = None" by simp
  then have "responseCache (clearExpiredCache now3 st1) (generateCacheKey doc qs) = None"
    by (rule clearExpiredCache_keeps_absent)
  with assms(1,2)
  have "providerCalls (snd (runQueryRetrieval (Some p') JSON_parse' now3 now4 doc qs st1))
          = providerCalls st1 + 1"
    by (rule run_miss_calls)
  with a st1 show ?thesis by simp
qed

theorem failure_writes_no_entry_witness:
  "runQueryRetrieval (Some (\<lambda>pr. Rejected (Error (js ''boom'')))) (\<lambda>t. None) 0 5 (js ''d'') [js ''q'']
       initial_state
     = (Throws (catch_block (Error (js ''boom''))),
        (clearExpiredCache 0 initial_state)\<lparr>providerCalls := 1\<rparr>)
   \<and> responseCache ((clearExpiredCache 0 initial_state)\<lparr>providerCalls := 1\<rparr>)
        (generateCacheKey (js ''d'') [js ''q'']) = None
   \<and> providerCalls
        (snd (runQueryRetrieval (Some (\<lambda>pr. Resolved None)) (\<lambda>t. None) 7 8 (js ''d'') [js ''q'']
               ((clearExpiredCache 0 initial_state)\<lparr>providerCalls := 1\<rparr>))) = 2"
proof -
  let ?st1 = "(clearExpiredCache 0 initial_state)\<lparr>providerCalls := 1\<rparr>"
  have miss: "responseCache (clearExpiredCache 0 initial_state) (generateCacheKey (js ''d'') [js ''q'']) = None"
    by (simp add: responseCache_clearExpiredCache initial_state_def)
  have run: "runQueryRetrieval (Some (\<lambda>pr. Rejected (Error (js ''boom'')))) (\<lambda>t. None) 0 5 (js ''d'')
               [js ''q''] initial_state
             = (Throws (catch_block (Error (js ''boom''))), ?st1)"
    using miss by (simp add: run_miss trim_d try_block_rejected providerCalls_clearExpiredCache
        initial_state_def)
  have fail: "\<forall>a. Throws (catch_block (Error (js ''boom''))) \<noteq> Returns a" by simp
  have q: "[js ''q''] \<noteq> []" by simp
  from failure_writes_no_entry [OF trim_d q run fail, of "\<lambda>pr. Resolved None" "\<lambda>t. None" 7 8] run
  show ?thesis by (simp add: initial_state_def providerCalls_clearExpiredCache)
qed

text \<open>
  C3. When a first call returns answers after one provider call, a second call with the
  same document text and questions whose sweep runs within \<open>CACHE_EXPIRY\<close> of the
  store returns the same answers and makes no provider call, whatever the provider would
  have answered: one provider call is made across the two calls.
\<close>

theorem second_call_is_cache_hit:
  assumes "runQueryRetrieval (Some p) JSON_parse now1 now2 doc qs st = (Returns a, st1)"
    and "providerCalls st1 = providerCalls st + 1"
    and "now3 - now2 \<le> CACHE_EXPIRY"
  shows "runQueryRetrieval (Some p') JSON_parse' now3 now4 doc qs st1
           = (Returns a, clearExpiredCache now3 st1)
         \<and> providerCalls (clearExpiredCache now3 st1) = providerCalls st + 1"
proof -
  from assms(1,2) have d: "trim doc \<noteq> []" and q: "qs \<noteq> []"
    and r: "responseCache st1 (generateCacheKey doc qs) = Some a"
    and t: "cacheTimestamps st1 (generateCacheKey doc qs) = Some now2"
    using run_success_state[OF assms(1,2)] by simp_all
  from r t assms(3)
  have "responseCache (clearExpiredCache now3 st1) (generateCacheKey doc qs) = Some a"
    by (simp add: responseCache_clearExpiredCache)
  with d q have "runQueryRetrieval (Some p') JSON_parse' now3 now4 doc qs st1
           = (Returns a, clearExpiredCache now3 st1)"
    by (rule run_hit)
  with assms(2) show ?thesis by (simp add: providerCalls_clearExpiredCache)
qed

section \<open>Evaluating the examples\<close>

lemma trim_text_one_answer: "trim text_one_answer = text_one_answer"
  by (simp add: trim_def text_one_answer_def dq_def js_def isWhiteSpace_def)

lemma trim_text_no_answer: "trim text_no_answer = text_no_answer"
  by (simp add: trim_def text_no_answer_def dq_def js_def isWhiteSpace_def)

lemma trim_text_number_answer: "trim text_number_answer = text_number_answer"
  by (simp add: trim_def text_number_answer_def dq_def js_def isWhiteSpace_def)

lemma text_one_answer_nonempty: "text_one_answer \<noteq> []"
  by (simp add: text_one_answer_def js_def)

lemma text_no_answer_nonempty: "text_no_answer \<noteq> []"
  by (simp add: text_no_answer_def js_def)

lemma text_number_answer_nonempty: "text_number_answer \<noteq> []"
  by (simp add: text_number_answer_def js_def)

lemma example_parse_one_answer:
  "example_parse text_one_answer = Some (JObj [(js ''answers'', JArr [JStr (js ''a'')])])"
  by (simp add: example_parse_def)

lemma example_parse_no_answer:
  "example_parse text_no_answer = Some (JObj [(js ''answers'', JArr [])])"
  by (simp add: example_parse_def text_one_answer_def text_no_answer_def dq_def js_def)

lemma example_parse_number_answer:
  "example_parse text_number_answer = Some (JObj [(js ''answers'', JArr [JNum 1])])"
  by (simp add: example_parse_def text_one_answer_def text_no_answer_def
      text_number_answer_def dq_def js_def)

lemma example_parse_oops: "example_parse (js ''oops'') = None"
  by (simp add: example_parse_def text_one_answer_def text_no_answer_def
      text_number_answer_def dq_def js_def)

lemma trim_oops: "trim (js ''oops'') = js ''oops''"
  by (simp add: trim_def js_def isWhiteSpace_def)

lemma answers_of_example: "answers_of (JObj [(js ''answers'', x)]) = Some x"
  by simp

lemma initial_miss:
  "responseCache (clearExpiredCache now initial_state) key = None"
  by (simp add: responseCache_clearExpiredCache initial_state_def)

text \<open>A call that reaches the provider and receives an answers array.\<close>

lemma run_answers:
  assumes "trim doc \<noteq> []" "qs \<noteq> []"
    and "responseCache (clearExpiredCache now1 st) (generateCacheKey doc qs) = None"
    and "p (prompt doc qs) = Resolved (Some t)" "trim t \<noteq> []"
    and "JSON_parse (trim t) = Some v" "answers_of v = Some (JArr answers)"
  shows "runQueryRetrieval (Some p) JSON_parse now1 now2 doc qs st
     = (Returns answers,
        (clearExpiredCache now1 st)
          \<lparr>providerCalls := providerCalls st + 1,
           responseCache :=
             (responseCache (clearExpiredCache now1 st))(generateCacheKey doc qs \<mapsto> answers),
           cacheTimestamps :=
             (cacheTimestamps (clearExpiredCache now1 st))(generateCacheKey doc qs \<mapsto> now2)\<rparr>)"
  using assms
  by (simp add: run_miss try_block_answers[where t = t and v = v]
      providerCalls_clearExpiredCache)

text \<open>The state after one successful call on the empty cache, stored at time 10.\<close>

lemma first_call:
  "runQueryRetrieval (Some (\<lambda>pr. Resolved (Some text_one_answer))) example_parse 0 10
       (js ''d'') [js ''q''] initial_state
     = (Returns [JStr (js ''a'')],
        (clearExpiredCache 0 initial_state)
          \<lparr>providerCalls := 1,
           responseCache :=
             (responseCache (clearExpiredCache 0 initial_state))
               (generateCacheKey (js ''d'') [js ''q''] \<mapsto> [JStr (js ''a'')]),
           cacheTimestamps :=
             (cacheTimestamps (clearExpiredCache 0 initial_state))
               (generateCacheKey (js ''d'') [js ''q''] \<mapsto> 10)\<rparr>)"
proof -
  have "runQueryRetrieval (Some (\<lambda>pr. Resolved (Some text_one_answer))) example_parse 0 10
       (js ''d'') [js ''q''] initial_state
     = (Returns [JStr (js ''a'')],
        (clearExpiredCache 0 initial_state)
          \<lparr>providerCalls := providerCalls initial_state + 1,
           responseCache :=
             (responseCache (clearExpiredCache 0 initial_state))
               (generateCacheKey (js ''d'') [js ''q''] \<mapsto> [JStr (js ''a'')]),
           cacheTimestamps :=
             (cacheTimestamps (clearExpiredCache 0 initial_state))
               (generateCacheKey (js ''d'') [js ''q''] \<mapsto> 10)\<rparr>)"
    by (rule run_answers[where t = text_one_answer
          and v = "JObj [(js ''answers'', JArr [JStr (js ''a'')])]"])
       (simp_all add: trim_d initial_miss trim_text_one_answer text_one_answer_nonempty
          example_parse_one_answer)
  then show ?thesis by (simp add: initial_state_def)
qed

theorem second_call_is_cache_hit_witness:
  "runQueryRetrieval (Some (\<lambda>pr. Rejected NonError)) (\<lambda>t. None) 300010 300020 (js ''d'') [js ''q'']
     (snd (runQueryRetrieval (Some (\<lambda>pr. Resolved (Some text_one_answer))) example_parse 0 10
            (js ''d'') [js ''q''] initial_state))
   = (Returns [JStr (js ''a'')],
      clearExpiredCache 300010
        (snd (runQueryRetrieval (Some (\<lambda>pr. Resolved (Some text_one_answer))) example_parse 0 10
               (js ''d'') [js ''q''] initial_state)))
   \<and> providerCalls
        (clearExpiredCache 300010
          (snd (runQueryRetrieval (Some (\<lambda>pr. Resolved (Some text_one_answer))) example_parse 0 10
               (js ''d'') [js ''q''] initial_state))) = 1"
proof -
  let ?run1 = "runQueryRetrieval (Some (\<lambda>pr. Resolved (Some text_one_answer))) example_parse 0 10
                 (js ''d'') [js ''q''] initial_state"
  have r: "?run1 = (Returns [JStr (js ''a'')], snd ?run1)"
    by (simp add: first_call)
  have c: "providerCalls (snd ?run1) = providerCalls initial_state + 1"
    by (simp only: first_call) (simp add: initial_state_def)
  have t: "(300010::int) - 10 \<le> CACHE_EXPIRY"
    by (simp add: CACHE_EXPIRY_def)
  from second_call_is_cache_hit [OF r c t, of "\<lambda>pr. Rejected NonError" "\<lambda>t. None" 300020]
  show ?thesis by (simp add: initial_state_def)
qed

section \<open>The cache invariant\<close>

lemma clearExpiredCache_consistent:
  "cache_consistent st \<Longrightarrow> cache_consistent (clearExpiredCache now st)"
  by (auto simp add: cache_consistent_def responseCache_clearExpiredCache
      cacheTimestamps_clearExpiredCache split: option.splits if_splits)

lemma try_block_consistent:
  "cache_consistent st \<Longrightarrow> cache_consistent (snd (try_block p JSON_parse now key pr st))"
  by (auto simp add: cache_consistent_def try_block_def Let_def
      split: provider_outcome.splits option.splits if_splits)

lemma run_miss_snd:
  assumes "trim doc \<noteq> []" "qs \<noteq> []"
    and "responseCache (clearExpiredCache now1 st) (generateCacheKey doc qs) = None"
  shows "snd (runQueryRetrieval (Some p) JSON_parse now1 now2 doc qs st)
           = snd (try_block p JSON_parse now2 (generateCacheKey doc qs) (prompt doc qs)
                    (clearExpiredCache now1 st))"
  using assms
  by (cases "try_block p JSON_parse now2 (generateCacheKey doc qs) (prompt doc qs)
                    (clearExpiredCache now1 st)")
     (simp add: run_miss split: sum.splits)

lemma run_consistent:
  assumes "cache_consistent st"
  shows "cache_consistent (snd (runQueryRetrieval ai JSON_parse now1 now2 doc qs st))"
proof (cases ai)
  case None
  with assms show ?thesis by (simp add: runQueryRetrieval_def)
next
  case (Some p)
  show ?thesis
  proof (cases "trim doc = []")
    case True
    with Some assms show ?thesis by (simp add: run_blank_document)
  next
    case d: False
    show ?thesis
    proof (cases "qs = []")
      case True
      with Some d assms show ?thesis by (simp add: run_no_questions)
    next
      case q: False
      show ?thesis
      proof (cases "responseCache (clearExpiredCache now1 st) (generateCacheKey doc qs)")
        case None
        with Some d q assms show ?thesis
          by (simp add: run_miss_snd try_block_consistent clearExpiredCache_consistent)
      next
        case (Some a)
        with \<open>ai = Some p\<close> d q assms show ?thesis
          by (simp add: run_hit clearExpiredCache_consistent)
      qed
    qed
  qed
qed

lemma reachable_consistent: "reachable st \<Longrightarrow> cache_consistent st"
proof (induction rule: reachable.induct)
  case reachable_init
  show ?case by (simp add: cache_consistent_def initial_state_def)
next
  case (reachable_step st ai JSON_parse now1 now2 doc qs)
  then show ?case by (simp add: run_consistent)
qed

text \<open>
  C2. In every reachable cache state, a call that returns answers without calling the
  provider returns an entry whose age at the sweep, \<open>now1 - timestamp\<close>, is at most
  \<open>CACHE_EXPIRY\<close> (five minutes); and when the entry under the key of a valid request
  is older than that, the call behaves as on an absent entry and calls the provider.
\<close>

theorem cache_never_serves_stale:
  assumes "reachable st"
    and "runQueryRetrieval (Some p) JSON_parse now1 now2 doc qs st = (r, st')"
  shows "(r = Returns a \<and> providerCalls st' = providerCalls st \<longrightarrow>
            (\<exists>ts. cacheTimestamps st (generateCacheKey doc qs) = Some ts
                  \<and> now1 - ts \<le> CACHE_EXPIRY
                  \<and> responseCache st (generateCacheKey doc qs) = Some a))
       \<and> (trim doc \<noteq> [] \<and> qs \<noteq> []
            \<and> (\<exists>ts. cacheTimestamps st (generateCacheKey doc qs) = Some ts
                      \<and> now1 - ts > CACHE_EXPIRY) \<longrightarrow>
            providerCalls st' = providerCalls st + 1)"
proof (intro conjI impI)
  assume h: "r = Returns a \<and> providerCalls st' = providerCalls st"
  let ?key = "generateCacheKey doc qs"
  have d: "trim doc \<noteq> []" using assms(2) h by (auto simp add: run_blank_document)
  have q: "qs \<noteq> []" using assms(2) h d by (auto simp add: run_no_questions)
  have hit: "responseCache (clearExpiredCache now1 st) ?key = Some a"
  proof (cases "responseCache (clearExpiredCache now1 st) ?key")
    case None
    with d q have "providerCalls (snd (runQueryRetrieval (Some p) JSON_parse now1 now2 doc qs st))
        = providerCalls st + 1"
      by (rule run_miss_calls)
    with assms(2) h show ?thesis by simp
  next
    case (Some b)
    with d q assms(2) h show ?thesis by (simp add: run_hit)
  qed
  from assms(1) have "cache_consistent st" by (rule reachable_consistent)
  then have c: "responseCache st ?key \<noteq> None \<longrightarrow> cacheTimestamps st ?key \<noteq> None"
    by (simp add: cache_consistent_def)
  from hit c show "\<exists>ts. cacheTimestamps st ?key = Some ts \<and> now1 - ts \<le> CACHE_EXPIRY
      \<and> responseCache st ?key = Some a"
    by (auto simp add: responseCache_clearExpiredCache split: option.splits if_splits)
next
  assume h: "trim doc \<noteq> [] \<and> qs \<noteq> []
      \<and> (\<exists>ts. cacheTimestamps st (generateCacheKey doc qs) = Some ts \<and> now1 - ts > CACHE_EXPIRY)"
  then have "responseCache (clearExpiredCache now1 st) (generateCacheKey doc qs) = None"
    by (auto simp add: responseCache_clearExpiredCache)
  with h have "providerCalls (snd (runQueryRetrieval (Some p) JSON_parse now1 now2 doc qs st))
        = providerCalls st + 1"
    by (simp add: run_miss_calls)
  with assms(2) show "providerCalls st' = providerCalls st + 1" by simp
qed

theorem cache_never_serves_stale_witness:
  "(\<exists>ts. cacheTimestamps
            (snd (runQueryRetrieval (Some (\<lambda>pr. Resolved (Some text_one_answer))) example_parse 0 10
                   (js ''d'') [js ''q''] initial_state))
            (generateCacheKey (js ''d'') [js ''q'']) = Some ts
         \<and> 300010 - ts \<le> CACHE_EXPIRY
         \<and> responseCache
            (snd (runQueryRetrieval (Some (\<lambda>pr. Resolved (Some text_one_answer))) example_parse 0 10
                   (js ''d'') [js ''q''] initial_state))
            (generateCacheKey (js ''d'') [js ''q'']) = Some [JStr (js ''a'')])
   \<and> providerCalls
        (snd (runQueryRetrieval (Some (\<lambda>pr. Resolved None)) (\<lambda>t. None) 300011 300012
               (js ''d'') [js ''q'']
               (snd (runQueryRetrieval (Some (\<lambda>pr. Resolved (Some text_one_answer))) example_parse
                      0 10 (js ''d'') [js ''q''] initial_state)))) = 2"
proof -
  let ?key = "generateCacheKey (js ''d'') [js ''q'']"
  let ?st1 = "snd (runQueryRetrieval (Some (\<lambda>pr. Resolved (Some text_one_answer))) example_parse
                     0 10 (js ''d'') [js ''q''] initial_state)"
  let ?run2 = "runQueryRetrieval (Some (\<lambda>pr. Resolved None)) (\<lambda>t. None) 300011 300012
                 (js ''d'') [js ''q''] ?st1"
  let ?run3 = "runQueryRetrieval (Some (\<lambda>pr. Rejected NonError)) (\<lambda>t. None) 300010 300020
                 (js ''d'') [js ''q''] ?st1"
  have reach: "reachable ?st1"
    by (rule reachable_step[OF reachable_init])
  have ts: "cacheTimestamps ?st1 ?key = Some 10"
    and rc: "responseCache ?st1 ?key = Some [JStr (js ''a'')]"
    and calls: "providerCalls ?st1 = 1"
    by (simp_all add: first_call)
  have q: "[js ''q''] \<noteq> []" by simp
  have e2: "?run2 = (fst ?run2, snd ?run2)" by simp
  have old: "\<exists>ts. cacheTimestamps ?st1 ?key = Some ts \<and> 300011 - ts > CACHE_EXPIRY"
    using ts by (simp add: CACHE_EXPIRY_def)
  from cache_never_serves_stale [OF reach e2, of "[]"] trim_d q old
  have two: "providerCalls (snd ?run2) = providerCalls ?st1 + 1" by blast
  have "responseCache (clearExpiredCache 300010 ?st1) ?key = Some [JStr (js ''a'')]"
    using ts rc by (simp add: responseCache_clearExpiredCache CACHE_EXPIRY_def)
  with trim_d q have e3: "?run3 = (Returns [JStr (js ''a'')], clearExpiredCache 300010 ?st1)"
    by (rule run_hit)
  have same: "providerCalls (clearExpiredCache 300010 ?st1) = providerCalls ?st1"
    by (rule providerCalls_clearExpiredCache)
  from cache_never_serves_stale [OF reach e3, of "[JStr (js ''a'')]"] same
  have one: "\<exists>ts. cacheTimestamps ?st1 ?key = Some ts \<and> 300010 - ts \<le> CACHE_EXPIRY
      \<and> responseCache ?st1 ?key = Some [JStr (js ''a'')]"
    by blast
  from one two calls show ?thesis by simp
qed

text \<open>
  C6 (as amended). With a configured client, a document text that is empty or blank
  after trimming, or an empty question list, makes \<open>runQueryRetrieval\<close> throw its
  validation error with the cache state untouched: no sweep, no lookup and no provider
  call have happened. (Only the length of the question list is tested: a list of blank
  questions passes the validation.)
\<close>

theorem invalid_input_fails_fast:
  assumes "trim doc = [] \<or> qs = []"
  shows "runQueryRetrieval (Some p) JSON_parse now1 now2 doc qs st
     = (Throws (if trim doc = [] then js ''Document text cannot be empty.''
                else js ''At least one question is required.''), st)"
  using assms by (auto simp add: run_blank_document run_no_questions)

theorem invalid_input_fails_fast_witness:
  "runQueryRetrieval (Some (\<lambda>pr. Resolved (Some text_one_answer))) example_parse 0 10
       (js ''  '') [js ''q''] initial_state
     = (Throws (js ''Document text cannot be empty.''), initial_state)
   \<and> runQueryRetrieval (Some (\<lambda>pr. Resolved (Some text_one_answer))) example_parse 0 10
       (js ''d'') [] initial_state
     = (Throws (js ''At least one question is required.''), initial_state)"
proof -
  have b: "trim (js ''  '') = []"
    by (simp add: trim_def js_def isWhiteSpace_def)
  from invalid_input_fails_fast [of "js ''  ''" "[js ''q'']", OF disjI1, OF b]
       invalid_input_fails_fast [of "js ''d''" "[]", OF disjI2, OF refl]
  show ?thesis by (simp add: b trim_d)
qed

text \<open>
  C6 as stated fails: a question list whose only entry is blank is not rejected. The call
  goes on to the provider, here one that resolves without text.
\<close>

theorem blank_questions_reach_provider:
  "trim (js '' '') = []
   \<and> fst (runQueryRetrieval (Some (\<lambda>pr. Resolved None)) (\<lambda>t. None) 0 10 (js ''d'') [js '' '']
            initial_state) = ReturnsNull
   \<and> providerCalls
        (snd (runQueryRetrieval (Some (\<lambda>pr. Resolved None)) (\<lambda>t. None) 0 10 (js ''d'') [js '' '']
               initial_state)) = 1"
proof -
  have b: "trim (js '' '') = []"
    by (simp add: trim_def js_def isWhiteSpace_def)
  have "runQueryRetrieval (Some (\<lambda>pr. Resolved None)) (\<lambda>t. None) 0 10 (js ''d'') [js '' '']
            initial_state
        = (ReturnsNull, (clearExpiredCache 0 initial_state)
             \<lparr>providerCalls := providerCalls (clearExpiredCache 0 initial_state) + 1\<rparr>)"
    by (simp add: run_miss trim_d initial_miss try_block_no_text)
  with b show ?thesis by (simp add: providerCalls_clearExpiredCache initial_state_def)
qed

section \<open>Responses and errors\<close>

text \<open>\<open>js_includes\<close> is the substring test.\<close>

lemma js_includes_iff: "js_includes s search \<longleftrightarrow> (\<exists>pre post. s = pre @ search @ post)"
proof (induction s)
  case Nil
  show ?case by simp
next
  case (Cons c cs)
  show ?case
  proof
    assume "js_includes (c # cs) search"
    then have "take (length search) (c # cs) = search \<or> js_includes cs search" by simp
    then show "\<exists>pre post. c # cs = pre @ search @ post"
    proof
      assume "take (length search) (c # cs) = search"
      then have "c # cs = [] @ search @ drop (length search) (c # cs)"
        by (metis append_Nil append_take_drop_id)
      then show ?thesis by blast
    next
      assume "js_includes cs search"
      with Cons.IH obtain pre post where "cs = pre @ search @ post" by blast
      then have "c # cs = (c # pre) @ search @ post" by simp
      then show ?thesis by blast
    qed
  next
    assume "\<exists>pre post. c # cs = pre @ search @ post"
    then obtain pre post where e: "c # cs = pre @ search @ post" by blast
    show "js_includes (c # cs) search"
    proof (cases pre)
      case Nil
      with e have "take (length search) (c # cs) = search" by simp
      then show ?thesis by simp
    next
      case (Cons x pre')
      with e have "cs = pre' @ search @ post" by simp
      with Cons.IH have "js_includes cs search" by blast
      then show ?thesis by simp
    qed
  qed
qed

lemma js_includes_self: "js_includes m m"
  by (cases m) simp_all

lemma js_includes_append: "js_includes (pre @ m) m"
  by (induction pre) (simp_all add: js_includes_self)

lemma invalid_json_is_generic:
  "catch_block (Error (js ''Invalid JSON response from Gemini API.''))
     = js ''Gemini API Error: Invalid JSON response from Gemini API.''"
  by (simp add: catch_block_def js_def)

text \<open>
  C8 (as amended). When the provider returns an answers array, the entry stored under
  the key of the request is that array exactly as it was parsed, with no padding, with
  the time of the store as its timestamp. So the stored entry has one answer per
  question exactly when the provider returned one answer per question.
\<close>

theorem cache_stores_answers_as_returned:
  assumes "trim doc \<noteq> []" "qs \<noteq> []"
    and "responseCache (clearExpiredCache now st) (generateCacheKey doc qs) = None"
    and "p (prompt doc qs) = Resolved (Some t)" "trim t \<noteq> []"
    and "JSON_parse (trim t) = Some v" "answers_of v = Some (JArr answers)"
  shows "responseCache (snd (runQueryRetrieval (Some p) JSON_parse now now' doc qs st))
           (generateCacheKey doc qs) = Some answers
       \<and> cacheTimestamps (snd (runQueryRetrieval (Some p) JSON_parse now now' doc qs st))
           (generateCacheKey doc qs) = Some now'
       \<and> ((\<exists>e. responseCache (snd (runQueryRetrieval (Some p) JSON_parse now now' doc qs st))
                 (generateCacheKey doc qs) = Some e \<and> length e = length qs)
            = (length answers = length qs))"
  using assms by (simp add: run_answers[where t = t and v = v])

theorem cache_stores_answers_as_returned_witness:
  "responseCache
     (snd (runQueryRetrieval (Some (\<lambda>pr. Resolved (Some text_one_answer))) example_parse 0 10
            (js ''d'') [js ''q''] initial_state))
     (generateCacheKey (js ''d'') [js ''q'']) = Some [JStr (js ''a'')]
   \<and> cacheTimestamps
     (snd (runQueryRetrieval (Some (\<lambda>pr. Resolved (Some text_one_answer))) example_parse 0 10
            (js ''d'') [js ''q''] initial_state))
     (generateCacheKey (js ''d'') [js ''q'']) = Some 10"
proof -
  have q: "[js ''q''] \<noteq> []" by simp
  have t: "trim text_one_answer \<noteq> []"
    by (simp add: trim_text_one_answer text_one_answer_nonempty)
  have v: "example_parse (trim text_one_answer)
             = Some (JObj [(js ''answers'', JArr [JStr (js ''a'')])])"
    by (simp add: trim_text_one_answer example_parse_one_answer)
  from cache_stores_answers_as_returned
         [where p = "\<lambda>pr. Resolved (Some text_one_answer)" and JSON_parse = example_parse
            and doc = "js ''d''" and qs = "[js ''q'']" and st = initial_state
            and now = 0 and now' = 10 and t = text_one_answer
            and v = "JObj [(js ''answers'', JArr [JStr (js ''a'')])]"
            and answers = "[JStr (js ''a'')]"]
       trim_d q initial_miss t v
  show ?thesis by simp
qed

text \<open>
  C8 as stated fails: for one question and the response \<^verbatim>\<open>{"answers":[]}\<close> the stored
  entry is the empty array.
\<close>

theorem cache_entry_shorter_than_questions:
  "responseCache
     (snd (runQueryRetrieval (Some (\<lambda>pr. Resolved (Some text_no_answer))) example_parse 0 10
            (js ''d'') [js ''q''] initial_state))
     (generateCacheKey (js ''d'') [js ''q'']) = Some []
   \<and> length ([] :: json list) \<noteq> length [js ''q'']"
proof -
  have "runQueryRetrieval (Some (\<lambda>pr. Resolved (Some text_no_answer))) example_parse 0 10
            (js ''d'') [js ''q''] initial_state
     = (Returns [],
        (clearExpiredCache 0 initial_state)
          \<lparr>providerCalls := providerCalls initial_state + 1,
           responseCache :=
             (responseCache (clearExpiredCache 0 initial_state))
               (generateCacheKey (js ''d'') [js ''q''] \<mapsto> []),
           cacheTimestamps :=
             (cacheTimestamps (clearExpiredCache 0 initial_state))
               (generateCacheKey (js ''d'') [js ''q''] \<mapsto> 10)\<rparr>)"
    by (rule run_answers[where t = text_no_answer and v = "JObj [(js ''answers'', JArr [])]"])
       (simp_all add: trim_d initial_miss trim_text_no_answer text_no_answer_nonempty
          example_parse_no_answer)
  then show ?thesis by simp
qed

text \<open>
  C5 (as amended). The response text is trimmed before it is tested. When the text is
  \<open>undefined\<close>, or empty after trimming, \<open>runQueryRetrieval\<close> returns \<open>null\<close>; when
  the trimmed text is not empty and \<open>JSON.parse\<close> rejects it, \<open>runQueryRetrieval\<close>
  throws the error \<open>Gemini API Error: Invalid JSON response from Gemini API.\<close>; when the
  trimmed text parses to a value that has no \<open>answers\<close> property or whose \<open>answers\<close> is
  not an array, \<open>runQueryRetrieval\<close> returns \<open>null\<close>. In all these cases one provider
  call was made and nothing is stored under the key of the request. (The elements of an
  \<open>answers\<close> array are not inspected, and what \<open>trim\<close> removes around the text is not
  seen by the parser.)
\<close>

theorem malformed_response_not_cached:
  assumes "trim doc \<noteq> []" "qs \<noteq> []"
    and "responseCache (clearExpiredCache now st) (generateCacheKey doc qs) = None"
    and "p (prompt doc qs) = Resolved resp"
    and "case resp of
           None \<Rightarrow> True
         | Some t \<Rightarrow>
             trim t = [] \<or> JSON_parse (trim t) = None
             \<or> (\<exists>v. JSON_parse (trim t) = Some v \<and> \<not> isArray (answers_of v))"
  shows "runQueryRetrieval (Some p) JSON_parse now now' doc qs st
     = ((case resp of
           None \<Rightarrow> ReturnsNull
         | Some t \<Rightarrow>
             if trim t = [] then ReturnsNull
             else if JSON_parse (trim t) = None
             then Throws (js ''Gemini API Error: Invalid JSON response from Gemini API.'')
             else ReturnsNull),
        (clearExpiredCache now st)\<lparr>providerCalls := providerCalls st + 1\<rparr>)
     \<and> responseCache (snd (runQueryRetrieval (Some p) JSON_parse now now' doc qs st))
           (generateCacheKey doc qs) = None"
proof -
  let ?st = "(clearExpiredCache now st)\<lparr>providerCalls := providerCalls st + 1\<rparr>"
  have run: "runQueryRetrieval (Some p) JSON_parse now now' doc qs st
     = ((case resp of
           None \<Rightarrow> ReturnsNull
         | Some t \<Rightarrow>
             if trim t = [] then ReturnsNull
             else if JSON_parse (trim t) = None
             then Throws (js ''Gemini API Error: Invalid JSON response from Gemini API.'')
             else ReturnsNull), ?st)"
  proof (cases resp)
    case None
    with assms(1-4) show ?thesis
      by (simp add: run_miss try_block_no_text providerCalls_clearExpiredCache)
  next
    case (Some t)
    show ?thesis
    proof (cases "trim t = []")
      case True
      with Some assms(1-4) show ?thesis
        by (simp add: run_miss try_block_blank_text[where t = t] providerCalls_clearExpiredCache)
    next
      case t: False
      show ?thesis
      proof (cases "JSON_parse (trim t)")
        case None
        with Some t assms(1-4) show ?thesis
          by (simp add: run_miss try_block_not_json[where t = t] invalid_json_is_generic
              providerCalls_clearExpiredCache)
      next
        case v: (Some v)
        with Some t assms(5) have "\<not> isArray (answers_of v)" by simp
        with Some t v assms(1-4) show ?thesis
          by (simp add: run_miss try_block_wrong_shape[where t = t and v = v]
              providerCalls_clearExpiredCache)
      qed
    qed
  qed
  with assms(3) show ?thesis by simp
qed

theorem malformed_response_not_cached_witness:
  "runQueryRetrieval (Some (\<lambda>pr. Resolved (Some (js ''oops'')))) example_parse 0 10
       (js ''d'') [js ''q''] initial_state
     = (Throws (js ''Gemini API Error: Invalid JSON response from Gemini API.''),
        (clearExpiredCache 0 initial_state)\<lparr>providerCalls := 1\<rparr>)
   \<and> responseCache
        (snd (runQueryRetrieval (Some (\<lambda>pr. Resolved (Some (js ''oops'')))) example_parse 0 10
               (js ''d'') [js ''q''] initial_state))
        (generateCacheKey (js ''d'') [js ''q'']) = None
   \<and> runQueryRetrieval (Some (\<lambda>pr. Resolved (Some (js ''{}'')))) example_parse 0 10
       (js ''d'') [js ''q''] initial_state
     = (ReturnsNull, (clearExpiredCache 0 initial_state)\<lparr>providerCalls := 1\<rparr>)
   \<and> runQueryRetrieval (Some (\<lambda>pr. Resolved (Some (js '' '')))) example_parse 0 10
       (js ''d'') [js ''q''] initial_state
     = (ReturnsNull, (clearExpiredCache 0 initial_state)\<lparr>providerCalls := 1\<rparr>)
   \<and> runQueryRetrieval (Some (\<lambda>pr. Resolved None)) example_parse 0 10
       (js ''d'') [js ''q''] initial_state
     = (ReturnsNull, (clearExpiredCache 0 initial_state)\<lparr>providerCalls := 1\<rparr>)"
proof -
  have q: "[js ''q''] \<noteq> []" by simp
  have t: "trim (js ''oops'') \<noteq> []"
    by (simp add: trim_oops) (simp add: js_def)
  have n: "example_parse (trim (js ''oops'')) = None"
    by (simp add: trim_oops example_parse_oops)
  have tb: "trim (js ''{}'') = js ''{}''"
    by (simp add: trim_def js_def isWhiteSpace_def)
  have t': "trim (js ''{}'') \<noteq> []"
    by (simp add: tb) (simp add: js_def)
  have v: "example_parse (trim (js ''{}'')) = Some (JObj [])"
    by (simp add: tb) (simp add: example_parse_def text_one_answer_def text_no_answer_def
        text_number_answer_def dq_def js_def)
  have b: "trim (js '' '') = []"
    by (simp add: trim_def js_def isWhiteSpace_def)
  have c: "providerCalls initial_state = 0" by (simp add: initial_state_def)
  from malformed_response_not_cached
         [where p = "\<lambda>pr. Resolved (Some (js ''oops''))" and JSON_parse = example_parse
            and doc = "js ''d''" and qs = "[js ''q'']" and st = initial_state
            and now = 0 and now' = 10 and resp = "Some (js ''oops'')"]
       trim_d q initial_miss t n
  have one: "runQueryRetrieval (Some (\<lambda>pr. Resolved (Some (js ''oops'')))) example_parse 0 10
       (js ''d'') [js ''q''] initial_state
     = (Throws (js ''Gemini API Error: Invalid JSON response from Gemini API.''),
        (clearExpiredCache 0 initial_state)\<lparr>providerCalls := 1\<rparr>)
   \<and> responseCache
        (snd (runQueryRetrieval (Some (\<lambda>pr. Resolved (Some (js ''oops'')))) example_parse 0 10
               (js ''d'') [js ''q''] initial_state))
        (generateCacheKey (js ''d'') [js ''q'']) = None"
    by (simp add: c)
  from malformed_response_not_cached
         [where p = "\<lambda>pr. Resolved (Some (js ''{}''))" and JSON_parse = example_parse
            and doc = "js ''d''" and qs = "[js ''q'']" and st = initial_state
            and now = 0 and now' = 10 and resp = "Some (js ''{}'')"]
       trim_d q initial_miss t' v
  have two: "runQueryRetrieval (Some (\<lambda>pr. Resolved (Some (js ''{}'')))) example_parse 0 10
       (js ''d'') [js ''q''] initial_state
     = (ReturnsNull, (clearExpiredCache 0 initial_state)\<lparr>providerCalls := 1\<rparr>)"
    by (simp add: c)
  from malformed_response_not_cached
         [where p = "\<lambda>pr. Resolved (Some (js '' ''))" and JSON_parse = example_parse
            and doc = "js ''d''" and qs = "[js ''q'']" and st = initial_state
            and now = 0 and now' = 10 and resp = "Some (js '' '')"]
       trim_d q initial_miss b
  have three: "runQueryRetrieval (Some (\<lambda>pr. Resolved (Some (js '' '')))) example_parse 0 10
       (js ''d'') [js ''q''] initial_state
     = (ReturnsNull, (clearExpiredCache 0 initial_state)\<lparr>providerCalls := 1\<rparr>)"
    by (simp add: c)
  from malformed_response_not_cached
         [where p = "\<lambda>pr. Resolved None" and JSON_parse = example_parse
            and doc = "js ''d''" and qs = "[js ''q'']" and st = initial_state
            and now = 0 and now' = 10 and resp = None]
       trim_d q initial_miss
  have four: "runQueryRetrieval (Some (\<lambda>pr. Resolved None)) example_parse 0 10
       (js ''d'') [js ''q''] initial_state
     = (ReturnsNull, (clearExpiredCache 0 initial_state)\<lparr>providerCalls := 1\<rparr>)"
    by (simp add: c)
  from one two three four show ?thesis by (simp add: initial_miss)
qed

text \<open>
  C5 as stated fails: the response \<^verbatim>\<open>{"answers":[1]}\<close> has an \<open>answers\<close> array that holds
  a number, not strings; it is returned and stored.
\<close>

theorem number_answers_are_cached:
  "fst (runQueryRetrieval (Some (\<lambda>pr. Resolved (Some text_number_answer))) example_parse 0 10
         (js ''d'') [js ''q''] initial_state) = Returns [JNum 1]
   \<and> responseCache
        (snd (runQueryRetrieval (Some (\<lambda>pr. Resolved (Some text_number_answer))) example_parse 0 10
               (js ''d'') [js ''q''] initial_state))
        (generateCacheKey (js ''d'') [js ''q'']) = Some [JNum 1]"
proof -
  have "runQueryRetrieval (Some (\<lambda>pr. Resolved (Some text_number_answer))) example_parse 0 10
            (js ''d'') [js ''q''] initial_state
     = (Returns [JNum 1],
        (clearExpiredCache 0 initial_state)
          \<lparr>providerCalls := providerCalls initial_state + 1,
           responseCache :=
             (responseCache (clearExpiredCache 0 initial_state))
               (generateCacheKey (js ''d'') [js ''q''] \<mapsto> [JNum 1]),
           cacheTimestamps :=
             (cacheTimestamps (clearExpiredCache 0 initial_state))
               (generateCacheKey (js ''d'') [js ''q''] \<mapsto> 10)\<rparr>)"
    by (rule run_answers[where t = text_number_answer
          and v = "JObj [(js ''answers'', JArr [JNum 1])]"])
       (simp_all add: trim_d initial_miss trim_text_number_answer text_number_answer_nonempty
          example_parse_number_answer)
  then show ?thesis by simp
qed

text \<open>
  The parser sees the trimmed text only: a JSON text between a byte order mark and a
  no-break space, which is not JSON as a whole, is accepted and stored.
\<close>

lemma padded_response_is_cached:
  "fst (runQueryRetrieval (Some (\<lambda>pr. Resolved (Some (0xFEFF # text_one_answer @ [0xA0]))))
         example_parse 0 10 (js ''d'') [js ''q''] initial_state) = Returns [JStr (js ''a'')]
   \<and> responseCache
        (snd (runQueryRetrieval (Some (\<lambda>pr. Resolved (Some (0xFEFF # text_one_answer @ [0xA0]))))
               example_parse 0 10 (js ''d'') [js ''q''] initial_state))
        (generateCacheKey (js ''d'') [js ''q'']) = Some [JStr (js ''a'')]"
proof -
  have t: "trim (0xFEFF # text_one_answer @ [0xA0]) = text_one_answer"
    by (simp add: trim_def text_one_answer_def dq_def js_def isWhiteSpace_def)
  have "runQueryRetrieval (Some (\<lambda>pr. Resolved (Some (0xFEFF # text_one_answer @ [0xA0]))))
            example_parse 0 10 (js ''d'') [js ''q''] initial_state
     = (Returns [JStr (js ''a'')],
        (clearExpiredCache 0 initial_state)
          \<lparr>providerCalls := providerCalls initial_state + 1,
           responseCache :=
             (responseCache (clearExpiredCache 0 initial_state))
               (generateCacheKey (js ''d'') [js ''q''] \<mapsto> [JStr (js ''a'')]),
           cacheTimestamps :=
             (cacheTimestamps (clearExpiredCache 0 initial_state))
               (generateCacheKey (js ''d'') [js ''q''] \<mapsto> 10)\<rparr>)"
    by (rule run_answers[where t = "0xFEFF # text_one_answer @ [0xA0]"
          and v = "JObj [(js ''answers'', JArr [JStr (js ''a'')])]"])
       (simp_all add: trim_d initial_miss t text_one_answer_nonempty example_parse_one_answer)
  then show ?thesis by simp
qed

text \<open>
  C9 (as amended). When the provider call fails, \<open>runQueryRetrieval\<close> throws an error
  whose message is chosen by the first of the substrings \<open>quota\<close>, \<open>unauthorized\<close> and
  \<open>rate limit\<close> that the provider's message contains, and is the generic
  \<open>Gemini API Error: \<close> followed by the provider's message when it contains none; a
  thrown value that is not an \<open>Error\<close> gives the unknown-error message. The five
  messages are pairwise different, the generic one contains the provider's message, and
  nothing is stored in the cache.
\<close>

theorem provider_error_classification:
  assumes "trim doc \<noteq> []" "qs \<noteq> []"
    and "responseCache (clearExpiredCache now st) (generateCacheKey doc qs) = None"
    and "p (prompt doc qs) = Rejected err"
  shows "runQueryRetrieval (Some p) JSON_parse now now' doc qs st
     = (Throws
          (case err of
             Error m \<Rightarrow>
               if js_includes m (js ''quota'') then
                 js ''API quota exceeded. Please try again later.''
               else if js_includes m (js ''unauthorized'') then
                 js ''Invalid API key. Please check your API configuration.''
               else if js_includes m (js ''rate limit'') then
                 js ''Rate limit exceeded. Please wait a moment before trying again.''
               else js ''Gemini API Error: '' @ m
           | NonError \<Rightarrow>
               js ''An unknown error occurred while communicating with the Gemini API.''),
        (clearExpiredCache now st)\<lparr>providerCalls := providerCalls st + 1\<rparr>)
     \<and> js_includes (js ''Gemini API Error: '' @ msg) msg
     \<and> distinct [js ''API quota exceeded. Please try again later.'',
                  js ''Invalid API key. Please check your API configuration.'',
                  js ''Rate limit exceeded. Please wait a moment before trying again.'',
                  js ''An unknown error occurred while communicating with the Gemini API.'',
                  js ''Gemini API Error: '' @ msg]"
proof (intro conjI)
  from assms show "runQueryRetrieval (Some p) JSON_parse now now' doc qs st
     = (Throws
          (case err of
             Error m \<Rightarrow>
               if js_includes m (js ''quota'') then
                 js ''API quota exceeded. Please try again later.''
               else if js_includes m (js ''unauthorized'') then
                 js ''Invalid API key. Please check your API configuration.''
               else if js_includes m (js ''rate limit'') then
                 js ''Rate limit exceeded. Please wait a moment before trying again.''
               else js ''Gemini API Error: '' @ m
           | NonError \<Rightarrow>
               js ''An unknown error occurred while communicating with the Gemini API.''),
        (clearExpiredCache now st)\<lparr>providerCalls := providerCalls st + 1\<rparr>)"
    by (simp add: run_miss try_block_rejected catch_block_def providerCalls_clearExpiredCache)
  show "js_includes (js ''Gemini API Error: '' @ msg) msg"
    by (rule js_includes_append)
  show "distinct [js ''API quota exceeded. Please try again later.'',
                  js ''Invalid API key. Please check your API configuration.'',
                  js ''Rate limit exceeded. Please wait a moment before trying again.'',
                  js ''An unknown error occurred while communicating with the Gemini API.'',
                  js ''Gemini API Error: '' @ msg]"
    by (simp add: js_def)
qed

theorem provider_error_classification_witness:
  "runQueryRetrieval (Some (\<lambda>pr. Rejected (Error (js ''socket closed'')))) example_parse 0 10
       (js ''d'') [js ''q''] initial_state
     = (Throws (js ''Gemini API Error: socket closed''),
        (clearExpiredCache 0 initial_state)\<lparr>providerCalls := 1\<rparr>)
   \<and> js_includes (js ''Gemini API Error: socket closed'') (js ''socket closed'')"
proof -
  have q: "[js ''q''] \<noteq> []" by simp
  have c: "providerCalls initial_state = 0" by (simp add: initial_state_def)
  have g: "\<not> js_includes (js ''socket closed'') (js ''quota'')"
     "\<not> js_includes (js ''socket closed'') (js ''unauthorized'')"
     "\<not> js_includes (js ''socket closed'') (js ''rate limit'')"
    by (simp_all add: js_def)
  have m: "js ''Gemini API Error: '' @ js ''socket closed'' = js ''Gemini API Error: socket closed''"
    by (simp add: js_def)
  from provider_error_classification
         [where p = "\<lambda>pr. Rejected (Error (js ''socket closed''))" and JSON_parse = example_parse
            and doc = "js ''d''" and qs = "[js ''q'']" and st = initial_state
            and now = 0 and now' = 10 and err = "Error (js ''socket closed'')"
            and msg = "js ''socket closed''"]
       trim_d q initial_miss
  show ?thesis by (simp add: c g m)
qed

text \<open>
  C9 as stated fails: for a provider message that mentions \<open>quota\<close>, the error thrown to
  the caller is the fixed quota message, which does not contain the provider's message.
\<close>

theorem quota_error_drops_provider_message:
  "fst (runQueryRetrieval (Some (\<lambda>pr. Rejected (Error (js ''Daily quota used up'')))) example_parse
          0 10 (js ''d'') [js ''q''] initial_state)
     = Throws (js ''API quota exceeded. Please try again later.'')
   \<and> \<not> js_includes (js ''API quota exceeded. Please try again later.'') (js ''Daily quota used up'')"
proof
  have "js_includes (js ''Daily quota used up'') (js ''quota'')"
    by (simp add: js_def)
  then show "fst (runQueryRetrieval (Some (\<lambda>pr. Rejected (Error (js ''Daily quota used up''))))
          example_parse 0 10 (js ''d'') [js ''q''] initial_state)
     = Throws (js ''API quota exceeded. Please try again later.'')"
    by (simp add: run_miss trim_d initial_miss try_block_rejected catch_block_def)
  show "\<not> js_includes (js ''API quota exceeded. Please try again later.'') (js ''Daily quota used up'')"
    by (simp add: js_def)
qed

section \<open>The caller pads short answer lists\<close>

lemma handleAnalyze_returns:
  assumes "isFormValid app"
    and "runQueryRetrieval ai JSON_parse now now' (documentText app) (processedQuestions app) st
           = (Returns answers, st')"
  shows "results (fst (handleAnalyze ai JSON_parse now now' app st))
     = Some (map (\<lambda>(index, q). \<lparr>question = q, answer = answer_or_sentinel answers index\<rparr>)
              (enumerate 0 (processedQuestions app)))"
  using assms by (simp add: handleAnalyze_def)

lemma answer_or_sentinel_missing:
  "length answers \<le> index \<Longrightarrow> answer_or_sentinel answers index = JStr (js ''No answer found.'')"
  by (simp add: answer_or_sentinel_def)

text \<open>
  C4. When the provider returns an answers array, the results that \<open>handleAnalyze\<close>
  delivers for the request have exactly one entry per question, in the order of the
  questions, and every position for which the array has no answer holds the sentinel
  \<open>No answer found.\<close>
\<close>

theorem padding_law:
  assumes "isFormValid app"
    and "responseCache (clearExpiredCache now st)
           (generateCacheKey (documentText app) (processedQuestions app)) = None"
    and "p (prompt (documentText app) (processedQuestions app)) = Resolved (Some t)"
    and "trim t \<noteq> []"
    and "JSON_parse (trim t) = Some v" "answers_of v = Some (JArr answers)"
  shows "map_option length (results (fst (handleAnalyze (Some p) JSON_parse now now' app st)))
           = Some (length (processedQuestions app))
       \<and> (\<forall>i. length answers \<le> i \<and> i < length (processedQuestions app) \<longrightarrow>
              map_option (\<lambda>rs. rs ! i)
                (results (fst (handleAnalyze (Some p) JSON_parse now now' app st)))
              = Some \<lparr>question = processedQuestions app ! i,
                      answer = JStr (js ''No answer found.'')\<rparr>)"
proof -
  let ?pq = "processedQuestions app"
  from assms(1) have d: "trim (documentText app) \<noteq> []" and q: "?pq \<noteq> []"
    by (simp_all add: isFormValid_def)
  from d q assms(2-6)
  have "runQueryRetrieval (Some p) JSON_parse now now' (documentText app) ?pq st
     = (Returns answers,
        (clearExpiredCache now st)
          \<lparr>providerCalls := providerCalls st + 1,
           responseCache :=
             (responseCache (clearExpiredCache now st))
               (generateCacheKey (documentText app) ?pq \<mapsto> answers),
           cacheTimestamps :=
             (cacheTimestamps (clearExpiredCache now st))
               (generateCacheKey (documentText app) ?pq \<mapsto> now')\<rparr>)"
    by (rule run_answers)
  with assms(1)
  have r: "results (fst (handleAnalyze (Some p) JSON_parse now now' app st))
     = Some (map (\<lambda>(index, q). \<lparr>question = q, answer = answer_or_sentinel answers index\<rparr>)
              (enumerate 0 ?pq))"
    by (rule handleAnalyze_returns)
  show ?thesis
    by (simp add: r nth_enumerate_eq answer_or_sentinel_missing)
qed

theorem padding_law_witness:
  "map_option length
     (results (fst (handleAnalyze (Some (\<lambda>pr. Resolved (Some text_one_answer))) example_parse 0 10
        \<lparr>documentText = js ''d'', questions = js ''q1'' @ nl @ js ''q2'', results = None,
         isLoading = False, error = None, isApiKeyMissing = False\<rparr> initial_state)))
     = Some 2
   \<and> map_option (\<lambda>rs. rs ! 1)
     (results (fst (handleAnalyze (Some (\<lambda>pr. Resolved (Some text_one_answer))) example_parse 0 10
        \<lparr>documentText = js ''d'', questions = js ''q1'' @ nl @ js ''q2'', results = None,
         isLoading = False, error = None, isApiKeyMissing = False\<rparr> initial_state)))
     = Some \<lparr>question = js ''q2'', answer = JStr (js ''No answer found.'')\<rparr>"
proof -
  let ?app = "\<lparr>documentText = js ''d'', questions = js ''q1'' @ nl @ js ''q2'', results = None,
         isLoading = False, error = None, isApiKeyMissing = False\<rparr>"
  have pq: "processedQuestions ?app = [js ''q1'', js ''q2'']"
    by (simp add: processedQuestions_def js_def nl_def trim_def isWhiteSpace_def)
  have valid: "isFormValid ?app"
    by (simp add: isFormValid_def pq trim_d)
  have t: "trim text_one_answer \<noteq> []"
    by (simp add: trim_text_one_answer text_one_answer_nonempty)
  have v: "example_parse (trim text_one_answer)
             = Some (JObj [(js ''answers'', JArr [JStr (js ''a'')])])"
    by (simp add: trim_text_one_answer example_parse_one_answer)
  have a: "answers_of (JObj [(js ''answers'', JArr [JStr (js ''a'')])]) = Some (JArr [JStr (js ''a'')])"
    by simp
  from padding_law
         [where p = "\<lambda>pr. Resolved (Some text_one_answer)" and JSON_parse = example_parse
            and app = ?app and st = initial_state and now = 0 and now' = 10
            and t = text_one_answer and v = "JObj [(js ''answers'', JArr [JStr (js ''a'')])]"
            and answers = "[JStr (js ''a'')]"]
       valid initial_miss t v a
  have "map_option length
     (results (fst (handleAnalyze (Some (\<lambda>pr. Resolved (Some text_one_answer))) example_parse 0 10
         ?app initial_state))) = Some (length (processedQuestions ?app))
   \<and> (\<forall>i. length [JStr (js ''a'')] \<le> i \<and> i < length (processedQuestions ?app) \<longrightarrow>
          map_option (\<lambda>rs. rs ! i)
            (results (fst (handleAnalyze (Some (\<lambda>pr. Resolved (Some text_one_answer)))
               example_parse 0 10 ?app initial_state)))
          = Some \<lparr>question = processedQuestions ?app ! i,
                  answer = JStr (js ''No answer found.'')\<rparr>)"
    by simp
  then show ?thesis
    by (simp only: pq) simp
qed

end
